theory Spec2Isabelle
  imports Main "HOL-Library.Word"
begin

unbundle bit_operations_syntax

section \<open>Values of the server: strings, bytes, JSON\<close>

text \<open>
  The server is a Fastify application written in TypeScript. Its strings are JavaScript
  strings, that is sequences of 16-bit code units; its buffers are sequences of bytes.
  String literals of the source are ASCII and are written with \<open>js\<close>.
\<close>

type_synonym byte = "8 word"
type_synonym js_string = "16 word list"

definition js :: "string \<Rightarrow> js_string" where
  "js s = map of_char s"

text \<open>
  The values that cross the wire as JSON: the object literals handed to
  \<^verbatim>\<open>JSON.stringify\<close> and the object the route handler returns. An object keeps its
  properties in the order the literal lists them.
\<close>

datatype json = JString js_string | JBool bool | JObject "(string \<times> json) list"

fun property :: "json \<Rightarrow> string \<Rightarrow> json option" where
  "property (JObject kvs) k = map_of kvs k"
| "property _ k = None"

fun keys :: "json \<Rightarrow> string list" where
  "keys (JObject kvs) = map fst kvs"
| "keys _ = []"

subsection \<open>\<^verbatim>\<open>String.prototype.trim\<close>\<close>

text \<open>
  \<^verbatim>\<open>trim\<close> removes the leading and trailing code units that ECMAScript calls WhiteSpace
  or LineTerminator: TAB, LF, VT, FF, CR, SPACE, NBSP, U+1680, U+2000 to U+200A, U+2028,
  U+2029, U+202F, U+205F, U+3000 and U+FEFF. The handler tests \<^verbatim>\<open>!transcription.trim()\<close>,
  which holds exactly when the trimmed string is the empty string.
\<close>

definition is_white_space :: "16 word \<Rightarrow> bool" where
  "is_white_space c \<longleftrightarrow>
     c = 0x9 \<or> c = 0xA \<or> c = 0xB \<or> c = 0xC \<or> c = 0xD \<or> c = 0x20 \<or> c = 0xA0 \<or>
     c = 0x1680 \<or> (0x2000 \<le> c \<and> c \<le> 0x200A) \<or> c = 0x2028 \<or> c = 0x2029 \<or>
     c = 0x202F \<or> c = 0x205F \<or> c = 0x3000 \<or> c = 0xFEFF"

definition trim :: "js_string \<Rightarrow> js_string" where
  "trim s = rev (dropWhile is_white_space (rev (dropWhile is_white_space s)))"

text \<open>A transcript is whitespace-only when every code unit of it is white space; the
  empty transcript is the special case with no code unit at all.\<close>

definition whitespace_only :: "js_string \<Rightarrow> bool" where
  "whitespace_only s \<longleftrightarrow> list_all is_white_space s"

subsection \<open>\<^verbatim>\<open>Buffer.toString("base64")\<close>\<close>

text \<open>
  Node encodes a buffer in the base64 alphabet of RFC 4648 with padding: three bytes
  become four characters, a last group of one or two bytes is padded with \<open>=\<close>.
\<close>

definition base64_alphabet :: string where
  "base64_alphabet = ''ABCDEFGHIJKLMNOPQRSTUVWXYZabcdefghijklmnopqrstuvwxyz0123456789+/''"

definition sextet :: "nat \<Rightarrow> char" where
  "sextet n = base64_alphabet ! (n mod 64)"

fun base64 :: "byte list \<Rightarrow> string" where
  "base64 [] = []"
| "base64 [a] =
     (let n = unat a * 65536
      in [sextet (n div 262144), sextet (n div 4096), CHR ''='', CHR ''=''])"
| "base64 [a, b] =
     (let n = unat a * 65536 + unat b * 256
      in [sextet (n div 262144), sextet (n div 4096), sextet (n div 64), CHR ''=''])"
| "base64 (a # b # c # rest) =
     (let n = unat a * 65536 + unat b * 256 + unat c
      in [sextet (n div 262144), sextet (n div 4096), sextet (n div 64), sextet n]
         @ base64 rest)"

text \<open>The inverse reading of the alphabet, used to state that the encoding loses
  nothing.\<close>

definition unsextet :: "char \<Rightarrow> nat" where
  "unsextet c = (case find (\<lambda>i. base64_alphabet ! i = c) [0..<64] of Some i \<Rightarrow> i | None \<Rightarrow> 0)"

fun base64_decode :: "string \<Rightarrow> byte list" where
  "base64_decode (p # q # r # s # rest) =
     (let n = unsextet p * 262144 + unsextet q * 4096 + unsextet r * 64 + unsextet s
      in if r = CHR ''='' then [of_nat (n div 65536)]
         else if s = CHR ''='' then [of_nat (n div 65536), of_nat (n div 256)]
         else [of_nat (n div 65536), of_nat (n div 256), of_nat n] @ base64_decode rest)"
| "base64_decode _ = []"

section \<open>The world outside the handler\<close>

text \<open>
  The three collaborators are reached with \<^verbatim>\<open>fetch(url, init)\<close>. A request is the URL
  and the \<^verbatim>\<open>init\<close> object; the body is either a \<^verbatim>\<open>FormData\<close> (entries of field name,
  blob and file name) or the text \<^verbatim>\<open>JSON.stringify\<close> made of an object.
\<close>

datatype request_body =
    FormData "(string \<times> byte list \<times> js_string) list"
  | JsonBody json

record http_request =
  url :: js_string
  http_method :: string
  headers :: "(string \<times> string) list"
  body :: request_body

text \<open>
  What a \<^verbatim>\<open>fetch\<close> gives back. The promise is rejected when the collaborator cannot be
  reached (connection refused, timeout): \<open>Rejected\<close> carries the message of that error.
  Otherwise there is a response with its HTTP status; \<^verbatim>\<open>response.ok\<close> is true for the
  statuses 200 to 299. The source reads the body in one of two ways, and each reading is
  itself a promise that can be rejected: \<^verbatim>\<open>response.text()\<close> when the response is not
  ok, and \<^verbatim>\<open>response.json()\<close> or \<^verbatim>\<open>response.arrayBuffer()\<close> when it is. The parsed
  body has the type the source casts it to.
\<close>

datatype 'a body_read = ReadFailed js_string | Read 'a

datatype 'a fetched =
    Rejected js_string
  | Response nat "js_string body_read" "'a body_read"

definition ok :: "nat \<Rightarrow> bool" where
  "ok status \<longleftrightarrow> 200 \<le> status \<and> status \<le> 299"

record STTResponse =
  stt_text :: js_string

record OllamaResponse =
  response :: js_string
  ollama_done :: bool

text \<open>
  The world of one request: the environment variables read when the module is loaded,
  the successive readings of \<^verbatim>\<open>Date.now()\<close> (the \<open>k\<close>-th call of the request returns
  \<open>date_now k\<close>), and the answer of each collaborator to a request.
\<close>

record world =
  process_env :: "string \<Rightarrow> js_string option"
  date_now :: "nat \<Rightarrow> int"
  fetch_stt :: "http_request \<Rightarrow> STTResponse fetched"
  fetch_llm :: "http_request \<Rightarrow> OllamaResponse fetched"
  fetch_tts :: "http_request \<Rightarrow> byte list fetched"

text \<open>\<^verbatim>\<open>process.env.NAME || fallback\<close>: an unset or empty variable gives the fallback.\<close>

definition env_or :: "world \<Rightarrow> string \<Rightarrow> js_string \<Rightarrow> js_string" where
  "env_or w name fallback =
     (case process_env w name of
        None \<Rightarrow> fallback
      | Some v \<Rightarrow> if v = [] then fallback else v)"

definition STT_SERVICE_URL :: "world \<Rightarrow> js_string" where
  "STT_SERVICE_URL w = env_or w ''STT_SERVICE_URL'' (js ''http://localhost:8001'')"

definition LLM_SERVICE_URL :: "world \<Rightarrow> js_string" where
  "LLM_SERVICE_URL w = env_or w ''LLM_SERVICE_URL'' (js ''http://localhost:11434'')"

definition TTS_SERVICE_URL :: "world \<Rightarrow> js_string" where
  "TTS_SERVICE_URL w = env_or w ''TTS_SERVICE_URL'' (js ''http://localhost:8002'')"

definition LLM_MODEL :: "world \<Rightarrow> js_string" where
  "LLM_MODEL w = env_or w ''LLM_MODEL'' (js ''gemma3:4b'')"

definition SYSTEM_PROMPT :: js_string where
  "SYSTEM_PROMPT = js (''You are a friendly and helpful voice assistant. Keep your responses concise and conversational, as they will be spoken aloud. '' @
     ''Aim for 1-3 sentences unless the user asks for more detail. Avoid using markdown, bullet points, or special formatting since your response will be converted to speech. '' @
     ''Be natural and engaging.'')"

section \<open>What the handler does to the outside\<close>

text \<open>
  The handler has three kinds of effect: it calls a collaborator, it writes a line to the
  Fastify logger, and it sets the status code of the reply. They are recorded in the
  order they happen. The log lines keep the values the source interpolates into them:
  \<^item> \<open>ReceivedAudioFile\<close>: \<^verbatim>\<open>Received audio file: ${filename} (${audioBuffer.length} bytes)\<close>;
  \<^item> \<open>TranscriptionComplete\<close>: \<^verbatim>\<open>Transcription complete (${Date.now() - transcriptionStart}ms): "${transcription}"\<close>;
  \<^item> \<open>LLMResponseComplete\<close>: \<^verbatim>\<open>LLM response complete (${Date.now() - llmStart}ms): "${llmResponse.substring(0, 100)}..."\<close>;
  \<^item> \<open>TTSComplete\<close>: \<^verbatim>\<open>TTS complete (${Date.now() - ttsStart}ms): ${audioResponse.length} bytes\<close>;
  \<^item> \<open>TotalRequestTime\<close>: \<^verbatim>\<open>Total request time: ${totalTime}ms\<close>;
  \<^item> the three others are the fixed lines that announce a stage.

  \<open>LogError\<close> is \<^verbatim>\<open>fastify.log.error(error, "Chat pipeline error")\<close>.
  \<open>reply_code\<close> is the status set with \<^verbatim>\<open>reply.code\<close>, \<open>None\<close> as long as the handler has set
  none; Fastify then answers a thrown \<^verbatim>\<open>Error\<close> as a server error.
\<close>

datatype stage = STT | LLM | TTS

datatype log_line =
    ReceivedAudioFile js_string nat
  | TranscribingAudio
  | TranscriptionComplete int js_string
  | GeneratingLLMResponse
  | LLMResponseComplete int js_string
  | SynthesizingSpeech
  | TTSComplete int nat
  | TotalRequestTime int

datatype event =
    Fetch stage http_request
  | LogInfo log_line
  | LogError js_string string

text \<open>
  The steps of a run, in the order they happen: a reading of \<^verbatim>\<open>Date.now()\<close> with the
  value read, or one of the events above. The events of a run are its steps that are not
  readings of the clock.
\<close>

datatype step = Reading int | Did event

record state =
  clock_reads :: nat
  timeline :: "step list"
  reply_code :: "nat option"

fun did :: "step list \<Rightarrow> event list" where
  "did [] = []"
| "did (Reading t # ss) = did ss"
| "did (Did e # ss) = e # did ss"

definition events :: "state \<Rightarrow> event list" where
  "events s = did (timeline s)"

definition fresh :: state where
  "fresh = \<lparr>clock_reads = 0, timeline = [], reply_code = None\<rparr>"

definition Date_now :: "world \<Rightarrow> state \<Rightarrow> int \<times> state" where
  "Date_now w s =
     (let t = date_now w (clock_reads s)
      in (t, s\<lparr>clock_reads := Suc (clock_reads s), timeline := timeline s @ [Reading t]\<rparr>))"

definition emit :: "event \<Rightarrow> state \<Rightarrow> state" where
  "emit e s = s\<lparr>timeline := timeline s @ [Did e]\<rparr>"

definition log_info :: "log_line \<Rightarrow> state \<Rightarrow> state" where
  "log_info l s = emit (LogInfo l) s"

definition set_code :: "nat \<Rightarrow> state \<Rightarrow> state" where
  "set_code c s = s\<lparr>reply_code := Some c\<rparr>"

section \<open>The three stages\<close>

text \<open>
  Each stage function of the source makes one \<^verbatim>\<open>fetch\<close> (the request it sends is
  named apart, so that statements can refer to it), throws
  \<^verbatim>\<open>new Error(`<stage> service error: ${error}`)\<close> when the response is not ok, and
  returns the parsed body otherwise. A rejected promise is not caught in the function:
  the error leaves it as it is. A thrown error is \<open>Inl\<close> of its message.
\<close>

definition transcribe_request :: "world \<Rightarrow> byte list \<Rightarrow> js_string \<Rightarrow> http_request" where
  "transcribe_request w audioBuffer fname =
     (let formData = [(''audio'', audioBuffer, fname)]
      in \<lparr>url = STT_SERVICE_URL w @ js ''/transcribe'', http_method = ''POST'',
          headers = [], body = FormData formData\<rparr>)"

definition transcribeAudio ::
  "world \<Rightarrow> byte list \<Rightarrow> js_string \<Rightarrow> state \<Rightarrow> (js_string + js_string) \<times> state" where
  "transcribeAudio w audioBuffer fname s =
     (let rq = transcribe_request w audioBuffer fname;
          s1 = emit (Fetch STT rq) s
      in case fetch_stt w rq of
           Rejected err \<Rightarrow> (Inl err, s1)
         | Response status txt parsed \<Rightarrow>
             if \<not> ok status then
               (case txt of
                  ReadFailed err \<Rightarrow> (Inl err, s1)
                | Read error \<Rightarrow> (Inl (js ''STT service error: '' @ error), s1))
             else
               (case parsed of
                  ReadFailed err \<Rightarrow> (Inl err, s1)
                | Read data \<Rightarrow> (Inr (stt_text data), s1)))"

definition generate_request :: "world \<Rightarrow> js_string \<Rightarrow> http_request" where
  "generate_request w userMessage =
     \<lparr>url = LLM_SERVICE_URL w @ js ''/api/generate'', http_method = ''POST'',
      headers = [(''Content-Type'', ''application/json'')],
      body = JsonBody (JObject
        [(''model'', JString (LLM_MODEL w)),
         (''prompt'', JString userMessage),
         (''system'', JString SYSTEM_PROMPT),
         (''stream'', JBool False)])\<rparr>"

definition generateLLMResponse ::
  "world \<Rightarrow> js_string \<Rightarrow> state \<Rightarrow> (js_string + js_string) \<times> state" where
  "generateLLMResponse w userMessage s =
     (let rq = generate_request w userMessage;
          s1 = emit (Fetch LLM rq) s
      in case fetch_llm w rq of
           Rejected err \<Rightarrow> (Inl err, s1)
         | Response status txt parsed \<Rightarrow>
             if \<not> ok status then
               (case txt of
                  ReadFailed err \<Rightarrow> (Inl err, s1)
                | Read error \<Rightarrow> (Inl (js ''LLM service error: '' @ error), s1))
             else
               (case parsed of
                  ReadFailed err \<Rightarrow> (Inl err, s1)
                | Read data \<Rightarrow> (Inr (response data), s1)))"

definition synthesize_request :: "world \<Rightarrow> js_string \<Rightarrow> http_request" where
  "synthesize_request w reply =
     \<lparr>url = TTS_SERVICE_URL w @ js ''/synthesize'', http_method = ''POST'',
      headers = [(''Content-Type'', ''application/json'')],
      body = JsonBody (JObject [(''text'', JString reply)])\<rparr>"

definition synthesizeSpeech ::
  "world \<Rightarrow> js_string \<Rightarrow> state \<Rightarrow> (js_string + byte list) \<times> state" where
  "synthesizeSpeech w reply s =
     (let rq = synthesize_request w reply;
          s1 = emit (Fetch TTS rq) s
      in case fetch_tts w rq of
           Rejected err \<Rightarrow> (Inl err, s1)
         | Response status txt parsed \<Rightarrow>
             if \<not> ok status then
               (case txt of
                  ReadFailed err \<Rightarrow> (Inl err, s1)
                | Read error \<Rightarrow> (Inl (js ''TTS service error: '' @ error), s1))
             else
               (case parsed of
                  ReadFailed err \<Rightarrow> (Inl err, s1)
                | Read arrayBuffer \<Rightarrow> (Inr arrayBuffer, s1)))"

section \<open>The route \<^verbatim>\<open>POST /api/chat\<close>\<close>

text \<open>
  \<^verbatim>\<open>request.file()\<close> resolves to the first file part of the multipart request, or to
  \<^verbatim>\<open>undefined\<close> when the request has none. A part has a file name, which may be missing,
  and \<^verbatim>\<open>toBuffer()\<close> gives its bytes. The type describes the requests the multipart
  plugin hands over: a request that is not multipart, or a part above the registered
  limit of 50 MB, makes the plugin itself throw and is no value of this type.
\<close>

record multipart_file =
  filename :: "js_string option"
  toBuffer :: "byte list"

record request =
  request_file :: "multipart_file option"

text \<open>\<^verbatim>\<open>data.filename || "audio.webm"\<close>: a missing or empty name gives the default.\<close>

definition filename_or_default :: "multipart_file \<Rightarrow> js_string" where
  "filename_or_default data =
     (case filename data of
        None \<Rightarrow> js ''audio.webm''
      | Some n \<Rightarrow> if n = [] then js ''audio.webm'' else n)"

text \<open>
  The body of the \<^verbatim>\<open>try\<close> block. It returns the object the handler returns, or the
  message of the error thrown on the way.
\<close>

definition pipeline ::
  "world \<Rightarrow> byte list \<Rightarrow> js_string \<Rightarrow> int \<Rightarrow> state \<Rightarrow> (js_string + json) \<times> state" where
  "pipeline w audioBuffer fname startTime s =
     (let s1 = log_info TranscribingAudio s;
          (transcriptionStart, s2) = Date_now w s1;
          (r1, s3) = transcribeAudio w audioBuffer fname s2
      in case r1 of
           Inl err \<Rightarrow> (Inl err, s3)
         | Inr transcription \<Rightarrow>
            (let (t1, s4) = Date_now w s3;
                 s5 = log_info (TranscriptionComplete (t1 - transcriptionStart) transcription) s4
             in if trim transcription = [] then
                  (Inl (js ''Could not transcribe audio - no speech detected''), set_code 400 s5)
                else
                 (let s6 = log_info GeneratingLLMResponse s5;
                      (llmStart, s7) = Date_now w s6;
                      (r2, s8) = generateLLMResponse w transcription s7
                  in case r2 of
                       Inl err \<Rightarrow> (Inl err, s8)
                     | Inr llmResponse \<Rightarrow>
                        (let (t2, s9) = Date_now w s8;
                             s10 = log_info (LLMResponseComplete (t2 - llmStart) (take 100 llmResponse)) s9;
                             s11 = log_info SynthesizingSpeech s10;
                             (ttsStart, s12) = Date_now w s11;
                             (r3, s13) = synthesizeSpeech w llmResponse s12
                         in case r3 of
                              Inl err \<Rightarrow> (Inl err, s13)
                            | Inr audioResponse \<Rightarrow>
                               (let (t3, s14) = Date_now w s13;
                                    s15 = log_info (TTSComplete (t3 - ttsStart) (length audioResponse)) s14;
                                    audioBase64 = js (base64 audioResponse);
                                    (t4, s16) = Date_now w s15;
                                    totalTime = t4 - startTime;
                                    s17 = log_info (TotalRequestTime totalTime) s16
                                in (Inr (JObject
                                      [(''transcription'', JString transcription),
                                       (''response'', JString llmResponse),
                                       (''audioBase64'', JString audioBase64)]), s17))))))"

text \<open>
  The handler: it rejects a request without a file with status 400 before the
  \<^verbatim>\<open>try\<close> block, and its \<^verbatim>\<open>catch\<close> logs the error and throws it again unchanged.
\<close>

definition chat_handler :: "world \<Rightarrow> request \<Rightarrow> state \<Rightarrow> (js_string + json) \<times> state" where
  "chat_handler w rq s =
     (let (startTime, s1) = Date_now w s
      in case request_file rq of
           None \<Rightarrow> (Inl (js ''No audio file provided''), set_code 400 s1)
         | Some data \<Rightarrow>
            (let audioBuffer = toBuffer data;
                 fname = filename_or_default data;
                 s2 = log_info (ReceivedAudioFile fname (length audioBuffer)) s1;
                 (r, s3) = pipeline w audioBuffer fname startTime s2
             in case r of
                  Inl err \<Rightarrow> (Inl err, emit (LogError err ''Chat pipeline error'') s3)
                | Inr result \<Rightarrow> (Inr result, s3)))"

section \<open>Reading a run\<close>

text \<open>
  A run of the handler starts from \<open>fresh\<close> and leaves a result and a final state. The
  functions below read the recorded events: the requests sent to the collaborators, the
  stage durations and the total request time written to the log.
\<close>

fun fetches :: "event list \<Rightarrow> (stage \<times> http_request) list" where
  "fetches [] = []"
| "fetches (Fetch st rq # es) = (st, rq) # fetches es"
| "fetches (LogInfo l # es) = fetches es"
| "fetches (LogError e m # es) = fetches es"

definition called :: "event list \<Rightarrow> stage list" where
  "called es = map fst (fetches es)"

fun stage_duration :: "log_line \<Rightarrow> (stage \<times> int) list" where
  "stage_duration (TranscriptionComplete d t) = [(STT, d)]"
| "stage_duration (LLMResponseComplete d t) = [(LLM, d)]"
| "stage_duration (TTSComplete d n) = [(TTS, d)]"
| "stage_duration l = []"

fun stage_durations :: "event list \<Rightarrow> (stage \<times> int) list" where
  "stage_durations [] = []"
| "stage_durations (LogInfo l # es) = stage_duration l @ stage_durations es"
| "stage_durations (e # es) = stage_durations es"

fun total_times :: "event list \<Rightarrow> int list" where
  "total_times [] = []"
| "total_times (LogInfo (TotalRequestTime d) # es) = d # total_times es"
| "total_times (e # es) = total_times es"

text \<open>
  The ways a \<^verbatim>\<open>fetch\<close> can fail, read off the answer of the collaborator: the promise
  was rejected (a transport failure), the response was not ok and carried an error text
  (an upstream failure), or the body could not be read.
\<close>

datatype failure = TransportFailure js_string | UpstreamFailure js_string | BodyFailure js_string

fun failure_of :: "'a fetched \<Rightarrow> failure option" where
  "failure_of (Rejected e) = Some (TransportFailure e)"
| "failure_of (Response status txt parsed) =
     (if \<not> ok status then
        (case txt of ReadFailed e \<Rightarrow> Some (BodyFailure e) | Read t \<Rightarrow> Some (UpstreamFailure t))
      else
        (case parsed of ReadFailed e \<Rightarrow> Some (BodyFailure e) | Read d \<Rightarrow> None))"

fun answer_failure :: "world \<Rightarrow> stage \<times> http_request \<Rightarrow> failure option" where
  "answer_failure w (STT, rq) = failure_of (fetch_stt w rq)"
| "answer_failure w (LLM, rq) = failure_of (fetch_llm w rq)"
| "answer_failure w (TTS, rq) = failure_of (fetch_tts w rq)"

fun stage_name :: "stage \<Rightarrow> string" where
  "stage_name STT = ''STT''"
| "stage_name LLM = ''LLM''"
| "stage_name TTS = ''TTS''"

text \<open>A run had a transport failure when one of the calls it made was rejected.\<close>

fun is_transport :: "failure option \<Rightarrow> bool" where
  "is_transport (Some (TransportFailure e)) = True"
| "is_transport other = False"

definition transport_failed :: "world \<Rightarrow> request \<Rightarrow> bool" where
  "transport_failed w rq =
     list_ex (\<lambda>c. is_transport (answer_failure w c)) (fetches (events (snd (chat_handler w rq fresh))))"

text \<open>The message of the error a stage function throws when its \<^verbatim>\<open>fetch\<close> fails.\<close>

fun thrown_message :: "stage \<Rightarrow> failure \<Rightarrow> js_string" where
  "thrown_message st (UpstreamFailure t) = js (stage_name st) @ js '' service error: '' @ t"
| "thrown_message st (TransportFailure e) = e"
| "thrown_message st (BodyFailure e) = e"

subsection \<open>Sample worlds\<close>

text \<open>
  A world in which every collaborator answers: the transcript is \<open>hello there\<close>, the
  reply \<open>Hi! How can I help?\<close>, the audio the four bytes \<open>RIFF\<close>; the clock advances
  by 250 ms between two readings. The variants change one collaborator or the clock.
\<close>

definition sample_world :: world where
  "sample_world =
     \<lparr>process_env = (\<lambda>name. None),
      date_now = (\<lambda>k. 1000 + 250 * int k),
      fetch_stt = (\<lambda>rq. Response 200 (Read []) (Read \<lparr>stt_text = js ''hello there''\<rparr>)),
      fetch_llm = (\<lambda>rq. Response 200 (Read [])
                     (Read \<lparr>response = js ''Hi! How can I help?'', ollama_done = True\<rparr>)),
      fetch_tts = (\<lambda>rq. Response 200 (Read []) (Read [0x52, 0x49, 0x46, 0x46]))\<rparr>"

definition sample_file :: multipart_file where
  "sample_file = \<lparr>filename = Some (js ''clip.webm''), toBuffer = [1, 2, 3]\<rparr>"

definition sample_request :: request where
  "sample_request = \<lparr>request_file = Some sample_file\<rparr>"

text \<open>
  Variants of the sample world: the STT or the LLM collaborator cannot be reached, the
  STT collaborator hears nothing, the LLM collaborator answers with status 500; further
  down, the LLM or the STT collaborator answers 500 and the connection ends before the
  body is read, and the model and the URL of the LLM service are configured.
\<close>

definition stt_unreachable :: world where
  "stt_unreachable = sample_world\<lparr>fetch_stt := (\<lambda>rq. Rejected (js ''fetch failed''))\<rparr>"

definition llm_unreachable :: world where
  "llm_unreachable = sample_world\<lparr>fetch_llm := (\<lambda>rq. Rejected (js ''fetch failed''))\<rparr>"

definition silent_world :: world where
  "silent_world = sample_world\<lparr>fetch_stt := (\<lambda>rq. Response 200 (Read []) (Read \<lparr>stt_text = js ''  ''\<rparr>))\<rparr>"

definition llm_broken :: world where
  "llm_broken = sample_world\<lparr>fetch_llm := (\<lambda>rq. Response 500 (Read (js ''model not found'')) (ReadFailed []))\<rparr>"

text \<open>
  The object the handler returns in the sample world, a world whose clock is set back
  before the last reading, an upload without a file name and an upload of zero bytes.
\<close>

definition llm_body_unreadable :: world where
  "llm_body_unreadable =
     sample_world\<lparr>fetch_llm := (\<lambda>rq. Response 500 (ReadFailed (js ''terminated'')) (ReadFailed []))\<rparr>"

definition stt_body_unreadable :: world where
  "stt_body_unreadable =
     sample_world\<lparr>fetch_stt := (\<lambda>rq. Response 500 (ReadFailed (js ''terminated'')) (ReadFailed []))\<rparr>"

definition configured_world :: world where
  "configured_world =
     sample_world\<lparr>process_env :=
       [''LLM_MODEL'' \<mapsto> js ''llama3.2:1b'', ''LLM_SERVICE_URL'' \<mapsto> js ''http://ollama:11434'']\<rparr>"

definition sample_reply :: json where
  "sample_reply = JObject
     [(''transcription'', JString (js ''hello there'')),
      (''response'', JString (js ''Hi! How can I help?'')),
      (''audioBase64'', JString (js ''UklGRg==''))]"

definition clock_stepped_back :: world where
  "clock_stepped_back = sample_world\<lparr>date_now := (\<lambda>k. if k = 7 then 1100 else 1000 + 250 * int k)\<rparr>"

definition unnamed_file :: multipart_file where
  "unnamed_file = \<lparr>filename = None, toBuffer = [1, 2, 3]\<rparr>"

definition empty_file :: multipart_file where
  "empty_file = \<lparr>filename = Some (js ''clip.webm''), toBuffer = []\<rparr>"

section \<open>Auxiliary facts\<close>

subsection \<open>Trimming\<close>

lemma all_dropWhile_iff:
  "(\<forall>x\<in>set (dropWhile P xs). P x) \<longleftrightarrow> (\<forall>x\<in>set xs. P x)"
proof
  assume a: "\<forall>x\<in>set (dropWhile P xs). P x"
  have "dropWhile P xs = []"
  proof (rule ccontr)
    assume ne: "dropWhile P xs \<noteq> []"
    then have "\<not> P (hd (dropWhile P xs))" by (rule hd_dropWhile)
    moreover have "hd (dropWhile P xs) \<in> set (dropWhile P xs)" using ne by (rule hd_in_set)
    ultimately show False using a by blast
  qed
  then show "\<forall>x\<in>set xs. P x" by (simp only: dropWhile_eq_Nil_conv)
next
  assume "\<forall>x\<in>set xs. P x"
  then show "\<forall>x\<in>set (dropWhile P xs). P x" by (blast dest: set_dropWhileD)
qed

lemma trim_empty_iff: "trim s = [] \<longleftrightarrow> whitespace_only s"
  by (simp add: trim_def whitespace_only_def all_dropWhile_iff list_all_iff)

subsection \<open>Base64 loses nothing\<close>

text \<open>
  Reading the four characters of a group back as sextets gives the three bytes of the
  group, so that decoding the encoding of a buffer returns the buffer.
\<close>

lemma alphabet_length: "length base64_alphabet = 64"
  by (simp add: base64_alphabet_def)

lemma alphabet_distinct: "distinct base64_alphabet"
  by (simp add: base64_alphabet_def)

lemma alphabet_no_pad: "CHR ''='' \<notin> set base64_alphabet"
  by (simp add: base64_alphabet_def)

lemma find_index_distinct:
  assumes "distinct xs" and "k < length xs"
  shows "find (\<lambda>i. xs ! i = xs ! k) [0..<length xs] = Some k"
proof -
  have "\<exists>i<length [0..<length xs]. (xs ! ([0..<length xs] ! i) = xs ! k) \<and> k = [0..<length xs] ! i
      \<and> (\<forall>j<i. \<not> (xs ! ([0..<length xs] ! j) = xs ! k))"
    using assms by (intro exI [of _ k]) (auto simp: nth_eq_iff_index_eq)
  then show ?thesis by (simp only: find_Some_iff)
qed

lemma unsextet_sextet: "unsextet (sextet n) = n mod 64"
proof -
  have "n mod 64 < length base64_alphabet" by (simp add: alphabet_length)
  from find_index_distinct [OF alphabet_distinct this]
  show ?thesis by (simp add: unsextet_def sextet_def alphabet_length)
qed

lemma sextet_not_pad: "sextet n \<noteq> CHR ''=''"
proof -
  have "n mod 64 < length base64_alphabet" by (simp add: alphabet_length)
  then have "base64_alphabet ! (n mod 64) \<in> set base64_alphabet" by (rule nth_mem)
  with alphabet_no_pad show ?thesis by (auto simp: sextet_def)
qed

lemma unsextet_pad: "unsextet CHR ''='' = 0"
proof -
  have "base64_alphabet ! i \<noteq> CHR ''=''" if "i < 64" for i
  proof -
    from that have "base64_alphabet ! i \<in> set base64_alphabet"
      by (simp add: alphabet_length)
    with alphabet_no_pad show ?thesis by auto
  qed
  then have "find (\<lambda>i. base64_alphabet ! i = CHR ''='') [0..<64] = None"
    by (simp add: find_None_iff)
  then show ?thesis by (simp add: unsextet_def)
qed

lemma regroup:
  fixes n :: nat
  assumes "n < 16777216"
  shows "(n div 262144) mod 64 * 262144 + (n div 4096) mod 64 * 4096 + (n div 64) mod 64 * 64 + n mod 64 = n"
proof -
  define p where "p = n div 262144"
  define q where "q = (n div 4096) mod 64"
  define r where "r = (n div 64) mod 64"
  define s where "s = n mod 64"
  have "n div 64 div 64 = n div 4096" and "n div 4096 div 64 = n div 262144"
    by (simp_all add: div_mult2_eq [symmetric])
  then have 1: "n div 64 = n div 4096 * 64 + r" and 2: "n div 4096 = p * 64 + q"
    using div_mult_mod_eq [of "n div 64" 64] div_mult_mod_eq [of "n div 4096" 64]
    by (simp_all add: p_def q_def r_def)
  have 3: "n = n div 64 * 64 + s"
    using div_mult_mod_eq [of n 64] by (simp add: s_def)
  from assms have "p < 64" unfolding p_def by (simp add: div_less_iff_less_mult)
  then have "p mod 64 = p" by simp
  moreover have "n = p * 262144 + q * 4096 + r * 64 + s"
    using 1 2 3 by algebra
  ultimately show ?thesis
    unfolding p_def [symmetric] q_def [symmetric] r_def [symmetric] s_def [symmetric]
    by simp
qed

lemma byte_bound: "unat (a :: byte) < 256"
  using unsigned_less [of a, where ?'a = nat] by simp

lemma byte_of_nat: "(of_nat k :: byte) = b \<longleftrightarrow> k mod 256 = unat b"
proof -
  have "(of_nat k :: byte) = of_nat (unat b) \<longleftrightarrow> k mod 256 = unat b mod 256"
    by (simp only: word_of_nat_eq_iff take_bit_eq_mod) simp
  then show ?thesis using byte_bound [of b] by simp
qed

lemma group_bytes:
  fixes a b c :: byte
  assumes "n = unat a * 65536 + unat b * 256 + unat c"
  shows "unsextet (sextet (n div 262144)) * 262144 + unsextet (sextet (n div 4096)) * 4096
           + unsextet (sextet (n div 64)) * 64 + unsextet (sextet n) = n"
    and "of_nat (n div 65536) = a"
    and "of_nat (n div 256) = b"
    and "of_nat n = c"
proof -
  note bounds = byte_bound [of a] byte_bound [of b] byte_bound [of c]
  from bounds have "n < 16777216" by (simp add: assms)
  then show "unsextet (sextet (n div 262144)) * 262144 + unsextet (sextet (n div 4096)) * 4096
           + unsextet (sextet (n div 64)) * 64 + unsextet (sextet n) = n"
    by (simp only: unsextet_sextet regroup)
  from bounds have "n div 65536 = unat a" by (simp add: assms)
  with bounds show "of_nat (n div 65536) = a" unfolding byte_of_nat by simp
  from bounds have "n div 256 = unat a * 256 + unat b" by (simp add: assms)
  with bounds show "of_nat (n div 256) = b" unfolding byte_of_nat by simp
  have "n = unat c + 256 * (unat a * 256 + unat b)" by (simp add: assms)
  then have "n mod 256 = unat c mod 256" by (simp only: mod_mult_self2)
  with bounds show "of_nat n = c" unfolding byte_of_nat by simp
qed

lemma base64_decode_base64: "base64_decode (base64 bs) = bs"
proof (induction bs rule: base64.induct)
  case 1
  show ?case by simp
next
  case (2 a)
  define n where "n = unat a * 65536"
  then have "n = unat a * 65536 + unat (0 :: byte) * 256 + unat (0 :: byte)" by simp
  note g = group_bytes [OF this]
  have "n div 64 mod 64 = 0" "n mod 64 = 0" by (simp_all add: n_def)
  then have "unsextet (sextet (n div 64)) = 0" "unsextet (sextet n) = 0"
    by (simp_all only: unsextet_sextet)
  with g(1) have "unsextet (sextet (n div 262144)) * 262144 + unsextet (sextet (n div 4096)) * 4096 = n"
    by simp
  with g(2) show ?case
    by (simp add: n_def [symmetric] unsextet_pad sextet_not_pad Let_def)
next
  case (3 a b)
  define n where "n = unat a * 65536 + unat b * 256"
  then have "n = unat a * 65536 + unat b * 256 + unat (0 :: byte)" by simp
  note g = group_bytes [OF this]
  have "n mod 64 = 0" by (simp add: n_def)
  then have "unsextet (sextet n) = 0"
    by (simp only: unsextet_sextet)
  with g(1) have "unsextet (sextet (n div 262144)) * 262144 + unsextet (sextet (n div 4096)) * 4096
      + unsextet (sextet (n div 64)) * 64 = n"
    by simp
  with g(2,3) show ?case
    by (simp add: n_def [symmetric] unsextet_pad sextet_not_pad Let_def)
next
  case (4 a b c rest)
  define n where "n = unat a * 65536 + unat b * 256 + unat c"
  note g = group_bytes [OF this]
  from g 4 show ?case
    by (simp add: n_def [symmetric] sextet_not_pad Let_def)
qed

subsection \<open>The stage functions\<close>

text \<open>The requests to the STT and the TTS collaborator, with the configuration read out.\<close>

lemma transcribe_request_shape:
  "transcribe_request w audioBuffer fname =
     \<lparr>url = (case process_env w ''STT_SERVICE_URL'' of
               None \<Rightarrow> js ''http://localhost:8001''
             | Some v \<Rightarrow> if v = [] then js ''http://localhost:8001'' else v) @ js ''/transcribe'',
      http_method = ''POST'', headers = [],
      body = FormData [(''audio'', audioBuffer, fname)]\<rparr>"
  by (simp add: transcribe_request_def STT_SERVICE_URL_def env_or_def)

lemma synthesize_request_shape:
  "synthesize_request w reply =
     \<lparr>url = (case process_env w ''TTS_SERVICE_URL'' of
               None \<Rightarrow> js ''http://localhost:8002''
             | Some v \<Rightarrow> if v = [] then js ''http://localhost:8002'' else v) @ js ''/synthesize'',
      http_method = ''POST'', headers = [(''Content-Type'', ''application/json'')],
      body = JsonBody (JObject [(''text'', JString reply)])\<rparr>"
  by (simp add: synthesize_request_def TTS_SERVICE_URL_def env_or_def)

lemma failure_of_None:
  "failure_of x = None \<longleftrightarrow> (\<exists>st tv d. x = Response st tv (Read d) \<and> ok st)"
  by (cases x) (auto split: body_read.splits)

lemma transcribeAudio_ok:
  "fetch_stt w (transcribe_request w a f) = Response st tv (Read d) \<Longrightarrow> ok st \<Longrightarrow>
   transcribeAudio w a f s = (Inr (stt_text d), emit (Fetch STT (transcribe_request w a f)) s)"
  by (simp add: transcribeAudio_def Let_def)

lemma generateLLMResponse_ok:
  "fetch_llm w (generate_request w t) = Response st tv (Read d) \<Longrightarrow> ok st \<Longrightarrow>
   generateLLMResponse w t s = (Inr (response d), emit (Fetch LLM (generate_request w t)) s)"
  by (simp add: generateLLMResponse_def Let_def)

lemma synthesizeSpeech_ok:
  "fetch_tts w (synthesize_request w t) = Response st tv (Read d) \<Longrightarrow> ok st \<Longrightarrow>
   synthesizeSpeech w t s = (Inr d, emit (Fetch TTS (synthesize_request w t)) s)"
  by (simp add: synthesizeSpeech_def Let_def)

lemma transcribeAudio_fails:
  "failure_of (fetch_stt w (transcribe_request w a f)) = Some fl \<Longrightarrow>
   transcribeAudio w a f s = (Inl (thrown_message STT fl), emit (Fetch STT (transcribe_request w a f)) s)"
  by (cases "fetch_stt w (transcribe_request w a f)")
     (auto simp: transcribeAudio_def Let_def js_def split: body_read.splits if_splits)

lemma generateLLMResponse_fails:
  "failure_of (fetch_llm w (generate_request w t)) = Some fl \<Longrightarrow>
   generateLLMResponse w t s = (Inl (thrown_message LLM fl), emit (Fetch LLM (generate_request w t)) s)"
  by (cases "fetch_llm w (generate_request w t)")
     (auto simp: generateLLMResponse_def Let_def js_def split: body_read.splits if_splits)

lemma synthesizeSpeech_fails:
  "failure_of (fetch_tts w (synthesize_request w t)) = Some fl \<Longrightarrow>
   synthesizeSpeech w t s = (Inl (thrown_message TTS fl), emit (Fetch TTS (synthesize_request w t)) s)"
  by (cases "fetch_tts w (synthesize_request w t)")
     (auto simp: synthesizeSpeech_def Let_def js_def split: body_read.splits if_splits)

subsection \<open>The six ways through the handler\<close>

text \<open>
  A run from \<open>fresh\<close> either finds no file, or fails in one of the three stages, or stops
  on a blank transcript, or succeeds. Each lemma gives the result and the final state of
  one of these ways.
\<close>

lemma did_append [simp]: "did (xs @ ys) = did xs @ did ys"
  by (induction xs rule: did.induct) simp_all

lemma events_state [simp]:
  "events \<lparr>clock_reads = c, timeline = steps, reply_code = r\<rparr> = did steps"
  by (simp add: events_def)

lemmas run_defs =
  chat_handler_def pipeline_def Date_now_def log_info_def emit_def set_code_def fresh_def
  events_def numeral_2_eq_2[symmetric] Let_def

lemma chat_handler_missing:
  assumes "request_file rq = None"
  shows "chat_handler w rq fresh =
    (Inl (js ''No audio file provided''),
     \<lparr>clock_reads = 1, timeline = [Reading (date_now w 0)], reply_code = Some 400\<rparr>)"
  using assms by (simp add: run_defs)

lemma chat_handler_stt_fails:
  assumes "request_file rq = Some data"
    and "failure_of (fetch_stt w (transcribe_request w (toBuffer data) (filename_or_default data))) = Some fl"
  shows "chat_handler w rq fresh =
    (Inl (thrown_message STT fl),
     \<lparr>clock_reads = 2,
      timeline =
       [Reading (date_now w 0),
        Did (LogInfo (ReceivedAudioFile (filename_or_default data) (length (toBuffer data)))),
        Did (LogInfo TranscribingAudio),
        Reading (date_now w 1),
        Did (Fetch STT (transcribe_request w (toBuffer data) (filename_or_default data))),
        Did (LogError (thrown_message STT fl) ''Chat pipeline error'')],
      reply_code = None\<rparr>)"
  using assms by (simp add: run_defs transcribeAudio_fails)

lemma chat_handler_no_speech:
  assumes "request_file rq = Some data"
    and "fetch_stt w (transcribe_request w (toBuffer data) (filename_or_default data)) = Response st1 tv1 (Read d1)"
    and "ok st1"
    and "trim (stt_text d1) = []"
  shows "chat_handler w rq fresh =
    (Inl (js ''Could not transcribe audio - no speech detected''),
     \<lparr>clock_reads = 3,
      timeline =
       [Reading (date_now w 0),
        Did (LogInfo (ReceivedAudioFile (filename_or_default data) (length (toBuffer data)))),
        Did (LogInfo TranscribingAudio),
        Reading (date_now w 1),
        Did (Fetch STT (transcribe_request w (toBuffer data) (filename_or_default data))),
        Reading (date_now w 2),
        Did (LogInfo (TranscriptionComplete (date_now w 2 - date_now w 1) (stt_text d1))),
        Did (LogError (js ''Could not transcribe audio - no speech detected'') ''Chat pipeline error'')],
      reply_code = Some 400\<rparr>)"
  using assms by (simp add: run_defs transcribeAudio_ok)

lemma chat_handler_llm_fails:
  assumes "request_file rq = Some data"
    and "fetch_stt w (transcribe_request w (toBuffer data) (filename_or_default data)) = Response st1 tv1 (Read d1)"
    and "ok st1"
    and "trim (stt_text d1) \<noteq> []"
    and "failure_of (fetch_llm w (generate_request w (stt_text d1))) = Some fl"
  shows "chat_handler w rq fresh =
    (Inl (thrown_message LLM fl),
     \<lparr>clock_reads = 4,
      timeline =
       [Reading (date_now w 0),
        Did (LogInfo (ReceivedAudioFile (filename_or_default data) (length (toBuffer data)))),
        Did (LogInfo TranscribingAudio),
        Reading (date_now w 1),
        Did (Fetch STT (transcribe_request w (toBuffer data) (filename_or_default data))),
        Reading (date_now w 2),
        Did (LogInfo (TranscriptionComplete (date_now w 2 - date_now w 1) (stt_text d1))),
        Did (LogInfo GeneratingLLMResponse),
        Reading (date_now w 3),
        Did (Fetch LLM (generate_request w (stt_text d1))),
        Did (LogError (thrown_message LLM fl) ''Chat pipeline error'')],
      reply_code = None\<rparr>)"
  using assms by (simp add: run_defs transcribeAudio_ok generateLLMResponse_fails)

lemma chat_handler_tts_fails:
  assumes "request_file rq = Some data"
    and "fetch_stt w (transcribe_request w (toBuffer data) (filename_or_default data)) = Response st1 tv1 (Read d1)"
    and "ok st1"
    and "trim (stt_text d1) \<noteq> []"
    and "fetch_llm w (generate_request w (stt_text d1)) = Response st2 tv2 (Read d2)"
    and "ok st2"
    and "failure_of (fetch_tts w (synthesize_request w (response d2))) = Some fl"
  shows "chat_handler w rq fresh =
    (Inl (thrown_message TTS fl),
     \<lparr>clock_reads = 6,
      timeline =
       [Reading (date_now w 0),
        Did (LogInfo (ReceivedAudioFile (filename_or_default data) (length (toBuffer data)))),
        Did (LogInfo TranscribingAudio),
        Reading (date_now w 1),
        Did (Fetch STT (transcribe_request w (toBuffer data) (filename_or_default data))),
        Reading (date_now w 2),
        Did (LogInfo (TranscriptionComplete (date_now w 2 - date_now w 1) (stt_text d1))),
        Did (LogInfo GeneratingLLMResponse),
        Reading (date_now w 3),
        Did (Fetch LLM (generate_request w (stt_text d1))),
        Reading (date_now w 4),
        Did (LogInfo (LLMResponseComplete (date_now w 4 - date_now w 3) (take 100 (response d2)))),
        Did (LogInfo SynthesizingSpeech),
        Reading (date_now w 5),
        Did (Fetch TTS (synthesize_request w (response d2))),
        Did (LogError (thrown_message TTS fl) ''Chat pipeline error'')],
      reply_code = None\<rparr>)"
  using assms
  by (simp add: run_defs transcribeAudio_ok generateLLMResponse_ok synthesizeSpeech_fails)

lemma chat_handler_success:
  assumes "request_file rq = Some data"
    and "fetch_stt w (transcribe_request w (toBuffer data) (filename_or_default data)) = Response st1 tv1 (Read d1)"
    and "ok st1"
    and "trim (stt_text d1) \<noteq> []"
    and "fetch_llm w (generate_request w (stt_text d1)) = Response st2 tv2 (Read d2)"
    and "ok st2"
    and "fetch_tts w (synthesize_request w (response d2)) = Response st3 tv3 (Read audio)"
    and "ok st3"
  shows "chat_handler w rq fresh =
    (Inr (JObject [(''transcription'', JString (stt_text d1)), (''response'', JString (response d2)),
                   (''audioBase64'', JString (js (base64 audio)))]),
     \<lparr>clock_reads = 8,
      timeline =
       [Reading (date_now w 0),
        Did (LogInfo (ReceivedAudioFile (filename_or_default data) (length (toBuffer data)))),
        Did (LogInfo TranscribingAudio),
        Reading (date_now w 1),
        Did (Fetch STT (transcribe_request w (toBuffer data) (filename_or_default data))),
        Reading (date_now w 2),
        Did (LogInfo (TranscriptionComplete (date_now w 2 - date_now w 1) (stt_text d1))),
        Did (LogInfo GeneratingLLMResponse),
        Reading (date_now w 3),
        Did (Fetch LLM (generate_request w (stt_text d1))),
        Reading (date_now w 4),
        Did (LogInfo (LLMResponseComplete (date_now w 4 - date_now w 3) (take 100 (response d2)))),
        Did (LogInfo SynthesizingSpeech),
        Reading (date_now w 5),
        Did (Fetch TTS (synthesize_request w (response d2))),
        Reading (date_now w 6),
        Did (LogInfo (TTSComplete (date_now w 6 - date_now w 5) (length audio))),
        Reading (date_now w 7),
        Did (LogInfo (TotalRequestTime (date_now w 7 - date_now w 0)))],
      reply_code = None\<rparr>)"
  using assms
  by (simp add: run_defs transcribeAudio_ok generateLLMResponse_ok synthesizeSpeech_ok)

text \<open>Every run from \<open>fresh\<close> goes one of the six ways.\<close>

lemma chat_handler_cases [case_names missing stt_fails no_speech llm_fails tts_fails success]:
  obtains
    (missing) "request_file rq = None"
  | (stt_fails) data fl where
      "request_file rq = Some data"
      "failure_of (fetch_stt w (transcribe_request w (toBuffer data) (filename_or_default data))) = Some fl"
  | (no_speech) data st1 tv1 d1 where
      "request_file rq = Some data"
      "fetch_stt w (transcribe_request w (toBuffer data) (filename_or_default data)) = Response st1 tv1 (Read d1)"
      "ok st1" "trim (stt_text d1) = []"
  | (llm_fails) data st1 tv1 d1 fl where
      "request_file rq = Some data"
      "fetch_stt w (transcribe_request w (toBuffer data) (filename_or_default data)) = Response st1 tv1 (Read d1)"
      "ok st1" "trim (stt_text d1) \<noteq> []"
      "failure_of (fetch_llm w (generate_request w (stt_text d1))) = Some fl"
  | (tts_fails) data st1 tv1 d1 st2 tv2 d2 fl where
      "request_file rq = Some data"
      "fetch_stt w (transcribe_request w (toBuffer data) (filename_or_default data)) = Response st1 tv1 (Read d1)"
      "ok st1" "trim (stt_text d1) \<noteq> []"
      "fetch_llm w (generate_request w (stt_text d1)) = Response st2 tv2 (Read d2)"
      "ok st2"
      "failure_of (fetch_tts w (synthesize_request w (response d2))) = Some fl"
  | (success) data st1 tv1 d1 st2 tv2 d2 st3 tv3 audio where
      "request_file rq = Some data"
      "fetch_stt w (transcribe_request w (toBuffer data) (filename_or_default data)) = Response st1 tv1 (Read d1)"
      "ok st1" "trim (stt_text d1) \<noteq> []"
      "fetch_llm w (generate_request w (stt_text d1)) = Response st2 tv2 (Read d2)"
      "ok st2"
      "fetch_tts w (synthesize_request w (response d2)) = Response st3 tv3 (Read audio)"
      "ok st3"
proof (cases "request_file rq")
  case None
  then show ?thesis by (rule missing)
next
  case (Some data)
  note upload = this
  show ?thesis
  proof (cases "failure_of (fetch_stt w (transcribe_request w (toBuffer data) (filename_or_default data)))")
    case (Some fl)
    with upload show ?thesis by (rule stt_fails)
  next
    case None
    then obtain st1 tv1 d1 where
      stt: "fetch_stt w (transcribe_request w (toBuffer data) (filename_or_default data)) = Response st1 tv1 (Read d1)"
      and ok1: "ok st1"
      unfolding failure_of_None by blast
    show ?thesis
    proof (cases "trim (stt_text d1) = []")
      case True
      with upload stt ok1 show ?thesis by (rule no_speech)
    next
      case False
      note speech = this
      show ?thesis
      proof (cases "failure_of (fetch_llm w (generate_request w (stt_text d1)))")
        case (Some fl)
        with upload stt ok1 speech show ?thesis by (rule llm_fails)
      next
        case None
        then obtain st2 tv2 d2 where
          llm: "fetch_llm w (generate_request w (stt_text d1)) = Response st2 tv2 (Read d2)"
          and ok2: "ok st2"
          unfolding failure_of_None by blast
        show ?thesis
        proof (cases "failure_of (fetch_tts w (synthesize_request w (response d2)))")
          case (Some fl)
          with upload stt ok1 speech llm ok2 show ?thesis by (rule tts_fails)
        next
          case None
          then obtain st3 tv3 audio where
            tts: "fetch_tts w (synthesize_request w (response d2)) = Response st3 tv3 (Read audio)"
            and ok3: "ok st3"
            unfolding failure_of_None by blast
          from upload stt ok1 speech llm ok2 tts ok3 show ?thesis by (rule success)
        qed
      qed
    qed
  qed
qed

text \<open>A run with a transport failure never sets the status code of the reply.\<close>

lemma is_transport_iff: "is_transport x \<longleftrightarrow> (\<exists>e. x = Some (TransportFailure e))"
  by (cases x rule: is_transport.cases) simp_all

lemma transport_failure_leaves_code:
  assumes "transport_failed w rq"
  shows "reply_code (snd (chat_handler w rq fresh)) = None"
proof (cases rule: chat_handler_cases [where rq = rq and w = w])
  case missing
  with assms show ?thesis
    by (simp add: transport_failed_def chat_handler_missing)
next
  case (stt_fails data fl)
  then show ?thesis by (simp add: chat_handler_stt_fails)
next
  case (no_speech data st1 tv1 d1)
  with assms show ?thesis
    by (simp add: transport_failed_def chat_handler_no_speech)
next
  case (llm_fails data st1 tv1 d1 fl)
  then show ?thesis by (simp add: chat_handler_llm_fails)
next
  case (tts_fails data st1 tv1 d1 st2 tv2 d2 fl)
  then show ?thesis by (simp add: chat_handler_tts_fails)
next
  case (success data st1 tv1 d1 st2 tv2 d2 st3 tv3 audio)
  then show ?thesis by (simp add: chat_handler_success)
qed

subsection \<open>The sample world\<close>

lemmas sample_defs =
  sample_world_def sample_request_def sample_file_def transcribe_request_def
  generate_request_def synthesize_request_def filename_or_default_def ok_def

lemma sample_transcript_not_blank: "\<not> whitespace_only (js ''hello there'')"
  by (simp add: whitespace_only_def js_def is_white_space_def)

subsection \<open>The calls of a run\<close>

text \<open>
  Whatever way a run goes: its requests to the LLM collaborator are built by
  \<open>generate_request\<close>; when there is a file, it makes exactly one request to the STT
  collaborator, after two log lines; and everything after that request depends on the
  upload only through the answer of the STT collaborator.
\<close>

lemma llm_fetches_of_run:
  assumes "c \<in> set (fetches (events (snd (chat_handler w rq fresh))))" and "fst c = LLM"
  shows "\<exists>data st tv d.
           request_file rq = Some data
         \<and> fetch_stt w (transcribe_request w (toBuffer data) (filename_or_default data)) =
             Response st tv (Read d)
         \<and> ok st
         \<and> snd c = generate_request w (stt_text d)"
proof (cases rule: chat_handler_cases [where rq = rq and w = w])
  case missing
  with assms show ?thesis by (simp add: chat_handler_missing)
next
  case (stt_fails data fl)
  with assms show ?thesis by (auto simp: chat_handler_stt_fails)
next
  case (no_speech data st1 tv1 d1)
  with assms show ?thesis by (auto simp: chat_handler_no_speech)
next
  case (llm_fails data st1 tv1 d1 fl)
  note run = chat_handler_llm_fails [OF llm_fails]
  from assms have "snd c = generate_request w (stt_text d1)" by (auto simp: run)
  with llm_fails show ?thesis by blast
next
  case (tts_fails data st1 tv1 d1 st2 tv2 d2 fl)
  note run = chat_handler_tts_fails [OF tts_fails]
  from assms have "snd c = generate_request w (stt_text d1)" by (auto simp: run)
  with tts_fails show ?thesis by blast
next
  case (success data st1 tv1 d1 st2 tv2 d2 st3 tv3 audio)
  note run = chat_handler_success [OF success]
  from assms have "snd c = generate_request w (stt_text d1)" by (auto simp: run)
  with success show ?thesis by blast
qed

lemma stt_fetch_of_run:
  assumes "request_file rq = Some data"
  shows "filter (\<lambda>c. fst c = STT) (fetches (events (snd (chat_handler w rq fresh)))) =
           [(STT, transcribe_request w (toBuffer data) (filename_or_default data))]"
proof (cases rule: chat_handler_cases [where rq = rq and w = w])
  case missing
  with assms show ?thesis by simp
next
  case (stt_fails d fl)
  with assms show ?thesis by (simp add: chat_handler_stt_fails [OF stt_fails])
next
  case (no_speech d st1 tv1 d1)
  with assms show ?thesis by (simp add: chat_handler_no_speech [OF no_speech])
next
  case (llm_fails d st1 tv1 d1 fl)
  with assms show ?thesis by (simp add: chat_handler_llm_fails [OF llm_fails])
next
  case (tts_fails d st1 tv1 d1 st2 tv2 d2 fl)
  with assms show ?thesis by (simp add: chat_handler_tts_fails [OF tts_fails])
next
  case (success d st1 tv1 d1 st2 tv2 d2 st3 tv3 audio)
  with assms show ?thesis by (simp add: chat_handler_success [OF success])
qed

lemma first_events_of_run:
  assumes "request_file rq = Some data"
  shows "take 3 (events (snd (chat_handler w rq fresh))) =
          [LogInfo (ReceivedAudioFile (filename_or_default data) (length (toBuffer data))),
           LogInfo TranscribingAudio,
           Fetch STT (transcribe_request w (toBuffer data) (filename_or_default data))]"
proof (cases rule: chat_handler_cases [where rq = rq and w = w])
  case missing
  with assms show ?thesis by simp
next
  case (stt_fails d fl)
  with assms show ?thesis by (simp add: chat_handler_stt_fails [OF stt_fails])
next
  case (no_speech d st1 tv1 d1)
  with assms show ?thesis by (simp add: chat_handler_no_speech [OF no_speech])
next
  case (llm_fails d st1 tv1 d1 fl)
  with assms show ?thesis by (simp add: chat_handler_llm_fails [OF llm_fails])
next
  case (tts_fails d st1 tv1 d1 st2 tv2 d2 fl)
  with assms show ?thesis by (simp add: chat_handler_tts_fails [OF tts_fails])
next
  case (success d st1 tv1 d1 st2 tv2 d2 st3 tv3 audio)
  with assms show ?thesis by (simp add: chat_handler_success [OF success])
qed

lemma rest_depends_on_stt_answer:
  assumes "request_file rq = Some data" and "request_file rq' = Some data'"
    and same: "fetch_stt w (transcribe_request w (toBuffer data') (filename_or_default data')) =
           fetch_stt w (transcribe_request w (toBuffer data) (filename_or_default data))"
  shows "fst (chat_handler w rq' fresh) = fst (chat_handler w rq fresh)
       \<and> reply_code (snd (chat_handler w rq' fresh)) = reply_code (snd (chat_handler w rq fresh))
       \<and> filter (\<lambda>c. fst c \<noteq> STT) (fetches (events (snd (chat_handler w rq' fresh)))) =
           filter (\<lambda>c. fst c \<noteq> STT) (fetches (events (snd (chat_handler w rq fresh))))"
proof (cases rule: chat_handler_cases [where rq = rq and w = w])
  case missing
  with assms show ?thesis by simp
next
  case (stt_fails d fl)
  with assms(1) have d: "d = data" by simp
  from stt_fails(2) same
  have "failure_of (fetch_stt w (transcribe_request w (toBuffer data') (filename_or_default data'))) = Some fl"
    by (simp add: d)
  note run' = chat_handler_stt_fails [OF assms(2) this]
  note run = chat_handler_stt_fails [OF stt_fails]
  show ?thesis by (simp add: run run')
next
  case (no_speech d st1 tv1 d1)
  with assms(1) have d: "d = data" by simp
  from no_speech(2) same
  have "fetch_stt w (transcribe_request w (toBuffer data') (filename_or_default data')) = Response st1 tv1 (Read d1)"
    by (simp add: d)
  note run' = chat_handler_no_speech [OF assms(2) this no_speech(3,4)]
  note run = chat_handler_no_speech [OF no_speech]
  show ?thesis by (simp add: run run')
next
  case (llm_fails d st1 tv1 d1 fl)
  with assms(1) have d: "d = data" by simp
  from llm_fails(2) same
  have "fetch_stt w (transcribe_request w (toBuffer data') (filename_or_default data')) = Response st1 tv1 (Read d1)"
    by (simp add: d)
  note run' = chat_handler_llm_fails [OF assms(2) this llm_fails(3,4,5)]
  note run = chat_handler_llm_fails [OF llm_fails]
  show ?thesis by (simp add: run run')
next
  case (tts_fails d st1 tv1 d1 st2 tv2 d2 fl)
  with assms(1) have d: "d = data" by simp
  from tts_fails(2) same
  have "fetch_stt w (transcribe_request w (toBuffer data') (filename_or_default data')) = Response st1 tv1 (Read d1)"
    by (simp add: d)
  note run' = chat_handler_tts_fails [OF assms(2) this tts_fails(3,4,5,6,7)]
  note run = chat_handler_tts_fails [OF tts_fails]
  show ?thesis by (simp add: run run')
next
  case (success d st1 tv1 d1 st2 tv2 d2 st3 tv3 audio)
  with assms(1) have d: "d = data" by simp
  from success(2) same
  have "fetch_stt w (transcribe_request w (toBuffer data') (filename_or_default data')) = Response st1 tv1 (Read d1)"
    by (simp add: d)
  note run' = chat_handler_success [OF assms(2) this success(3,4,5,6,7,8)]
  note run = chat_handler_success [OF success]
  show ?thesis by (simp add: run run')
qed

subsection \<open>The run of the sample world\<close>

lemmas eval_defs =
  sample_world_def sample_request_def sample_file_def ok_def run_defs
  transcribeAudio_def generateLLMResponse_def synthesizeSpeech_def
  trim_def is_white_space_def js_def filename_or_default_def

lemma sample_audio_base64: "base64 [0x52, 0x49, 0x46, 0x46] = ''UklGRg==''"
  by (simp add: sextet_def base64_alphabet_def)

lemma sample_run_result:
  "fst (chat_handler sample_world sample_request fresh) =
     Inr (JObject [(''transcription'', JString (js ''hello there'')),
                   (''response'', JString (js ''Hi! How can I help?'')),
                   (''audioBase64'', JString (js (base64 [0x52, 0x49, 0x46, 0x46])))])"
  by (simp add: eval_defs del: base64.simps)

lemma sample_transcript_trimmed: "trim (js ''hello there'') \<noteq> []"
  using sample_transcript_not_blank by (simp add: trim_empty_iff)

section \<open>The claims\<close>

subsection \<open>C1: a successful run returns what the collaborators returned\<close>

text \<open>
  C1. When the request carries a file, the STT, LLM and TTS collaborators all answer with
  an ok response, and the transcript is neither empty nor whitespace-only, the handler
  returns an object whose \<open>transcription\<close> is the text the STT collaborator returned,
  whose \<open>response\<close> is the text the LLM collaborator returned, and whose
  \<open>audioBase64\<close> is the base64 encoding of the bytes the TTS collaborator returned,
  from which decoding gives these bytes back.
\<close>

theorem success_returns_collaborator_values:
  assumes "request_file rq = Some data"
    and "fetch_stt w (transcribe_request w (toBuffer data) (filename_or_default data)) = Response st1 tv1 (Read d1)"
    and "ok st1"
    and "\<not> whitespace_only (stt_text d1)"
    and "fetch_llm w (generate_request w (stt_text d1)) = Response st2 tv2 (Read d2)"
    and "ok st2"
    and "fetch_tts w (synthesize_request w (response d2)) = Response st3 tv3 (Read audio)"
    and "ok st3"
  shows "fst (chat_handler w rq fresh) =
           Inr (JObject [(''transcription'', JString (stt_text d1)),
                         (''response'', JString (response d2)),
                         (''audioBase64'', JString (js (base64 audio)))])
       \<and> base64_decode (base64 audio) = audio"
proof -
  from assms(4) have "trim (stt_text d1) \<noteq> []" by (simp add: trim_empty_iff)
  with assms show ?thesis by (simp add: chat_handler_success base64_decode_base64 del: base64.simps)
qed

text \<open>The sample world satisfies the hypotheses, and the handler returns its values.\<close>

theorem success_returns_collaborator_values_witness:
  "request_file sample_request = Some sample_file \<and>
   \<not> whitespace_only (js ''hello there'') \<and>
   fst (chat_handler sample_world sample_request fresh) =
     Inr (JObject [(''transcription'', JString (js ''hello there'')),
                   (''response'', JString (js ''Hi! How can I help?'')),
                   (''audioBase64'', JString (js (base64 [0x52, 0x49, 0x46, 0x46])))]) \<and>
   base64_decode (base64 [0x52, 0x49, 0x46, 0x46]) = [0x52, 0x49, 0x46, 0x46]"
proof -
  have upload: "request_file sample_request = Some sample_file"
    by (simp add: sample_defs)
  have stt: "fetch_stt sample_world
      (transcribe_request sample_world (toBuffer sample_file) (filename_or_default sample_file)) =
      Response 200 (Read []) (Read \<lparr>stt_text = js ''hello there''\<rparr>)"
    by (simp add: sample_world_def)
  have llm: "fetch_llm sample_world (generate_request sample_world (stt_text \<lparr>stt_text = js ''hello there''\<rparr>)) =
      Response 200 (Read []) (Read \<lparr>response = js ''Hi! How can I help?'', ollama_done = True\<rparr>)"
    by (simp add: sample_world_def)
  have tts: "fetch_tts sample_world (synthesize_request sample_world
        (response \<lparr>response = js ''Hi! How can I help?'', ollama_done = True\<rparr>)) =
      Response 200 (Read []) (Read [0x52, 0x49, 0x46, 0x46])"
    by (simp add: sample_world_def)
  have ok200: "ok 200" by (simp add: ok_def)
  have speech: "\<not> whitespace_only (stt_text \<lparr>stt_text = js ''hello there''\<rparr>)"
    using sample_transcript_not_blank by simp
  from success_returns_collaborator_values [OF upload stt ok200 speech llm ok200 tts ok200] upload
    sample_transcript_not_blank
  show ?thesis by (simp del: base64.simps)
qed

subsection \<open>C2: a blank transcript stops the run\<close>

text \<open>
  C2. When the STT collaborator returns an empty or whitespace-only transcript, the
  handler fails with the no-speech error and status code 400, a client error, and has
  called the STT collaborator only: no request goes to the LLM or TTS collaborator.
  The outcome differs from that of a network failure: a run in which a call was
  rejected never sets a status code, so that it is answered as a server error.
\<close>

theorem no_speech_detected:
  assumes "request_file rq = Some data"
    and "fetch_stt w (transcribe_request w (toBuffer data) (filename_or_default data)) = Response st1 tv1 (Read d1)"
    and "ok st1"
    and "whitespace_only (stt_text d1)"
  shows "fst (chat_handler w rq fresh) = Inl (js ''Could not transcribe audio - no speech detected'')
       \<and> reply_code (snd (chat_handler w rq fresh)) = Some 400
       \<and> called (events (snd (chat_handler w rq fresh))) = [STT]
       \<and> (\<forall>w' rq'. transport_failed w' rq' \<longrightarrow> reply_code (snd (chat_handler w' rq' fresh)) = None)"
proof -
  from assms(4) have "trim (stt_text d1) = []" by (simp add: trim_empty_iff)
  note run = chat_handler_no_speech [OF assms(1-3) this]
  show ?thesis
    by (simp add: run called_def transport_failure_leaves_code)
qed

text \<open>A world whose transcript is two spaces, and one whose LLM cannot be reached.\<close>

theorem no_speech_detected_witness:
  "request_file sample_request = Some sample_file
   \<and> whitespace_only (js ''  '')
   \<and> fst (chat_handler silent_world sample_request fresh) = Inl (js ''Could not transcribe audio - no speech detected'')
   \<and> reply_code (snd (chat_handler silent_world sample_request fresh)) = Some 400
   \<and> called (events (snd (chat_handler silent_world sample_request fresh))) = [STT]
   \<and> transport_failed llm_unreachable sample_request
   \<and> reply_code (snd (chat_handler llm_unreachable sample_request fresh)) = None"
proof -
  have upload: "request_file sample_request = Some sample_file"
    by (simp add: sample_defs)
  have stt: "fetch_stt silent_world
      (transcribe_request silent_world (toBuffer sample_file) (filename_or_default sample_file)) =
      Response 200 (Read []) (Read \<lparr>stt_text = js ''  ''\<rparr>)"
    by (simp add: silent_world_def)
  have ok200: "ok 200" by (simp add: ok_def)
  have blank: "whitespace_only (js ''  '')"
    by (simp add: whitespace_only_def js_def is_white_space_def)
  then have blank': "whitespace_only (stt_text \<lparr>stt_text = js ''  ''\<rparr>)" by simp
  have down: "transport_failed llm_unreachable sample_request"
    by (simp add: transport_failed_def llm_unreachable_def sample_defs run_defs
        transcribeAudio_def generateLLMResponse_def trim_def is_white_space_def js_def)
  from no_speech_detected [OF upload stt ok200 blank'] upload blank down
  show ?thesis by simp
qed

subsection \<open>C3: an LLM failure stops the run before synthesis\<close>

text \<open>
  C3 as stated fails when the body of the failing response cannot be read. In the first
  world the LLM collaborator answers with status 500 and the connection ends before the
  body is read: the handler fails with the message of that reading, \<open>terminated\<close>, which
  does not name the LLM stage. The second world does the same in the STT stage, and the
  caller gets the same error.
\<close>

theorem unreadable_error_body_names_no_stage:
  "fst (chat_handler llm_body_unreadable sample_request fresh) = Inl (js ''terminated'')
   \<and> called (events (snd (chat_handler llm_body_unreadable sample_request fresh))) = [STT, LLM]
   \<and> fst (chat_handler stt_body_unreadable sample_request fresh) = Inl (js ''terminated'')
   \<and> called (events (snd (chat_handler stt_body_unreadable sample_request fresh))) = [STT]"
  by (simp add: llm_body_unreadable_def stt_body_unreadable_def sample_defs run_defs called_def
      transcribeAudio_def generateLLMResponse_def trim_def is_white_space_def js_def)

text \<open>
  C3, amended. When the STT stage succeeded with a transcript that is not blank and the
  LLM collaborator answers with a status outside 200 to 299, the handler fails, and the
  calls made are the STT and the LLM call: the TTS collaborator is never called. When the
  body of the answer can be read, the error is \<open>LLM service error: \<close> followed by the
  text of the body; when reading the body fails, the error is the message of that
  failure, unchanged.
\<close>

theorem llm_failure_stops_before_tts:
  assumes "request_file rq = Some data"
    and "fetch_stt w (transcribe_request w (toBuffer data) (filename_or_default data)) = Response st1 tv1 (Read d1)"
    and "ok st1"
    and "\<not> whitespace_only (stt_text d1)"
    and "fetch_llm w (generate_request w (stt_text d1)) = Response st2 txt parsed"
    and "\<not> ok st2"
  shows "fst (chat_handler w rq fresh) =
           Inl (case txt of Read err \<Rightarrow> js ''LLM service error: '' @ err | ReadFailed e \<Rightarrow> e)
       \<and> called (events (snd (chat_handler w rq fresh))) = [STT, LLM]
       \<and> TTS \<notin> set (called (events (snd (chat_handler w rq fresh))))"
proof -
  from assms(4) have speech: "trim (stt_text d1) \<noteq> []" by (simp add: trim_empty_iff)
  from assms(5,6) have "failure_of (fetch_llm w (generate_request w (stt_text d1))) =
      Some (case txt of Read err \<Rightarrow> UpstreamFailure err | ReadFailed e \<Rightarrow> BodyFailure e)"
    by (simp split: body_read.split)
  note run = chat_handler_llm_fails [OF assms(1-3) speech this]
  show ?thesis by (simp add: run called_def js_def split: body_read.split)
qed

text \<open>
  A world whose LLM collaborator answers 500 with the text \<open>model not found\<close>, and the
  world in which the body of its answer cannot be read.
\<close>

theorem llm_failure_stops_before_tts_witness:
  "request_file sample_request = Some sample_file
   \<and> \<not> ok 500
   \<and> fst (chat_handler llm_broken sample_request fresh) = Inl (js ''LLM service error: model not found'')
   \<and> called (events (snd (chat_handler llm_broken sample_request fresh))) = [STT, LLM]
   \<and> fst (chat_handler llm_body_unreadable sample_request fresh) = Inl (js ''terminated'')
   \<and> TTS \<notin> set (called (events (snd (chat_handler llm_body_unreadable sample_request fresh))))"
proof -
  have upload: "request_file sample_request = Some sample_file"
    by (simp add: sample_defs)
  have ok200: "ok 200" and not_ok500: "\<not> ok 500" by (simp_all add: ok_def)
  have speech: "\<not> whitespace_only (stt_text \<lparr>stt_text = js ''hello there''\<rparr>)"
    using sample_transcript_not_blank by simp
  have stt: "fetch_stt llm_broken
      (transcribe_request llm_broken (toBuffer sample_file) (filename_or_default sample_file)) =
      Response 200 (Read []) (Read \<lparr>stt_text = js ''hello there''\<rparr>)"
    by (simp add: llm_broken_def sample_world_def)
  have llm: "fetch_llm llm_broken (generate_request llm_broken (stt_text \<lparr>stt_text = js ''hello there''\<rparr>)) =
      Response 500 (Read (js ''model not found'')) (ReadFailed [])"
    by (simp add: llm_broken_def)
  have stt': "fetch_stt llm_body_unreadable
      (transcribe_request llm_body_unreadable (toBuffer sample_file) (filename_or_default sample_file)) =
      Response 200 (Read []) (Read \<lparr>stt_text = js ''hello there''\<rparr>)"
    by (simp add: llm_body_unreadable_def sample_world_def)
  have llm': "fetch_llm llm_body_unreadable
      (generate_request llm_body_unreadable (stt_text \<lparr>stt_text = js ''hello there''\<rparr>)) =
      Response 500 (ReadFailed (js ''terminated'')) (ReadFailed [])"
    by (simp add: llm_body_unreadable_def)
  from llm_failure_stops_before_tts [OF upload stt ok200 speech llm not_ok500]
  have readable: "fst (chat_handler llm_broken sample_request fresh) =
        Inl (js ''LLM service error: model not found'')
      \<and> called (events (snd (chat_handler llm_broken sample_request fresh))) = [STT, LLM]"
    by (simp add: js_def)
  from llm_failure_stops_before_tts [OF upload stt' ok200 speech llm' not_ok500]
  have unreadable: "fst (chat_handler llm_body_unreadable sample_request fresh) = Inl (js ''terminated'')
      \<and> TTS \<notin> set (called (events (snd (chat_handler llm_body_unreadable sample_request fresh))))"
    by simp
  from upload not_ok500 readable unreadable show ?thesis by blast
qed

subsection \<open>C4: the body of a successful response\<close>

text \<open>
  C4 as stated fails: the object returned in the sample world has the three properties
  \<open>transcription\<close>, \<open>response\<close> and \<open>audioBase64\<close>, and no property \<open>metrics\<close>.
\<close>

theorem response_has_no_metrics:
  "fst (chat_handler sample_world sample_request fresh) = Inr sample_reply
   \<and> keys sample_reply = [''transcription'', ''response'', ''audioBase64'']
   \<and> property sample_reply ''metrics'' = None"
  by (simp add: sample_run_result sample_audio_base64 sample_reply_def del: base64.simps)


text \<open>
  C4, amended. On full success the returned object has exactly the properties
  \<open>transcription\<close>, \<open>response\<close> and \<open>audioBase64\<close>, and no \<open>metrics\<close>. Each stage
  is timed on its own: the handler reads \<^verbatim>\<open>Date.now()\<close>, makes the call of the stage,
  reads \<^verbatim>\<open>Date.now()\<close> again when the call has returned, and writes the difference of
  the two readings to the log; no other step lies between the two readings of a stage
  than its call. The total is the last reading minus the first, which is taken before
  anything else. These four durations go to the log only. The steps of the run are, in
  this order, exactly those of the statement.
\<close>

theorem success_body_and_logged_durations:
  assumes "request_file rq = Some data"
    and "fetch_stt w (transcribe_request w (toBuffer data) (filename_or_default data)) = Response st1 tv1 (Read d1)"
    and "ok st1"
    and "\<not> whitespace_only (stt_text d1)"
    and "fetch_llm w (generate_request w (stt_text d1)) = Response st2 tv2 (Read d2)"
    and "ok st2"
    and "fetch_tts w (synthesize_request w (response d2)) = Response st3 tv3 (Read audio)"
    and "ok st3"
  shows "(\<exists>result. fst (chat_handler w rq fresh) = Inr result
            \<and> keys result = [''transcription'', ''response'', ''audioBase64'']
            \<and> property result ''metrics'' = None)
       \<and> timeline (snd (chat_handler w rq fresh)) =
            [Reading (date_now w 0),
             Did (LogInfo (ReceivedAudioFile (filename_or_default data) (length (toBuffer data)))),
             Did (LogInfo TranscribingAudio),
             Reading (date_now w 1),
             Did (Fetch STT (transcribe_request w (toBuffer data) (filename_or_default data))),
             Reading (date_now w 2),
             Did (LogInfo (TranscriptionComplete (date_now w 2 - date_now w 1) (stt_text d1))),
             Did (LogInfo GeneratingLLMResponse),
             Reading (date_now w 3),
             Did (Fetch LLM (generate_request w (stt_text d1))),
             Reading (date_now w 4),
             Did (LogInfo (LLMResponseComplete (date_now w 4 - date_now w 3) (take 100 (response d2)))),
             Did (LogInfo SynthesizingSpeech),
             Reading (date_now w 5),
             Did (Fetch TTS (synthesize_request w (response d2))),
             Reading (date_now w 6),
             Did (LogInfo (TTSComplete (date_now w 6 - date_now w 5) (length audio))),
             Reading (date_now w 7),
             Did (LogInfo (TotalRequestTime (date_now w 7 - date_now w 0)))]
       \<and> stage_durations (events (snd (chat_handler w rq fresh))) =
            [(STT, date_now w 2 - date_now w 1),
             (LLM, date_now w 4 - date_now w 3),
             (TTS, date_now w 6 - date_now w 5)]
       \<and> total_times (events (snd (chat_handler w rq fresh))) = [date_now w 7 - date_now w 0]"
proof -
  from assms(4) have speech: "trim (stt_text d1) \<noteq> []" by (simp add: trim_empty_iff)
  note run = chat_handler_success [OF assms(1-3) speech assms(5-8)]
  show ?thesis by (simp add: run)
qed

text \<open>
  The sample run: three stages of 250 ms and a total of 1750 ms in the log, and the STT
  call between the readings 1250 and 1500.
\<close>

theorem success_body_and_logged_durations_witness:
  "request_file sample_request = Some sample_file
   \<and> fst (chat_handler sample_world sample_request fresh) = Inr sample_reply
   \<and> keys sample_reply = [''transcription'', ''response'', ''audioBase64'']
   \<and> take 3 (drop 3 (timeline (snd (chat_handler sample_world sample_request fresh)))) =
        [Reading 1250,
         Did (Fetch STT (transcribe_request sample_world [1, 2, 3] (js ''clip.webm''))),
         Reading 1500]
   \<and> stage_durations (events (snd (chat_handler sample_world sample_request fresh))) =
        [(STT, 250), (LLM, 250), (TTS, 250)]
   \<and> total_times (events (snd (chat_handler sample_world sample_request fresh))) = [1750]"
proof -
  have upload: "request_file sample_request = Some sample_file"
    by (simp add: sample_defs)
  have stt: "fetch_stt sample_world
      (transcribe_request sample_world (toBuffer sample_file) (filename_or_default sample_file)) =
      Response 200 (Read []) (Read \<lparr>stt_text = js ''hello there''\<rparr>)"
    by (simp add: sample_world_def)
  have llm: "fetch_llm sample_world (generate_request sample_world (stt_text \<lparr>stt_text = js ''hello there''\<rparr>)) =
      Response 200 (Read []) (Read \<lparr>response = js ''Hi! How can I help?'', ollama_done = True\<rparr>)"
    by (simp add: sample_world_def)
  have tts: "fetch_tts sample_world (synthesize_request sample_world
        (response \<lparr>response = js ''Hi! How can I help?'', ollama_done = True\<rparr>)) =
      Response 200 (Read []) (Read [0x52, 0x49, 0x46, 0x46])"
    by (simp add: sample_world_def)
  have ok200: "ok 200" by (simp add: ok_def)
  have speech: "\<not> whitespace_only (stt_text \<lparr>stt_text = js ''hello there''\<rparr>)"
    using sample_transcript_not_blank by simp
  have result: "fst (chat_handler sample_world sample_request fresh) = Inr sample_reply"
    by (simp add: sample_run_result sample_audio_base64 sample_reply_def del: base64.simps)
  have name: "filename_or_default sample_file = js ''clip.webm''" "toBuffer sample_file = [1, 2, 3]"
    by (simp_all add: filename_or_default_def sample_file_def js_def)
  have clock: "date_now sample_world = (\<lambda>k. 1000 + 250 * int k)"
    by (simp add: sample_world_def)
  from success_body_and_logged_durations [OF upload stt ok200 speech llm ok200 tts ok200] upload result
  show ?thesis by (simp add: name clock)
qed

subsection \<open>C5: the total time and the stage durations\<close>

text \<open>
  C5 as stated fails. The response reports no total duration. The total the handler logs
  is a difference of two readings of the wall clock: when the clock is set back during
  the request, here before the last reading, the logged total (100 ms) is less than the
  sum of the logged stage durations (750 ms).
\<close>

theorem total_below_sum_when_clock_steps_back:
  "fst (chat_handler clock_stepped_back sample_request fresh) = Inr sample_reply
   \<and> property sample_reply ''metrics'' = None
   \<and> stage_durations (events (snd (chat_handler clock_stepped_back sample_request fresh))) =
        [(STT, 250), (LLM, 250), (TTS, 250)]
   \<and> total_times (events (snd (chat_handler clock_stepped_back sample_request fresh))) = [100]"
proof -
  have upload: "request_file sample_request = Some sample_file"
    by (simp add: sample_request_def)
  have stt: "fetch_stt clock_stepped_back
      (transcribe_request clock_stepped_back (toBuffer sample_file) (filename_or_default sample_file)) =
      Response 200 (Read []) (Read \<lparr>stt_text = js ''hello there''\<rparr>)"
    by (simp add: clock_stepped_back_def sample_world_def)
  have llm: "fetch_llm clock_stepped_back
      (generate_request clock_stepped_back (stt_text \<lparr>stt_text = js ''hello there''\<rparr>)) =
      Response 200 (Read []) (Read \<lparr>response = js ''Hi! How can I help?'', ollama_done = True\<rparr>)"
    by (simp add: clock_stepped_back_def sample_world_def)
  have tts: "fetch_tts clock_stepped_back (synthesize_request clock_stepped_back
        (response \<lparr>response = js ''Hi! How can I help?'', ollama_done = True\<rparr>)) =
      Response 200 (Read []) (Read [0x52, 0x49, 0x46, 0x46])"
    by (simp add: clock_stepped_back_def sample_world_def)
  have ok200: "ok 200" by (simp add: ok_def)
  have speech: "trim (stt_text \<lparr>stt_text = js ''hello there''\<rparr>) \<noteq> []"
    using sample_transcript_trimmed by simp
  note run = chat_handler_success [OF upload stt ok200 speech llm ok200 tts ok200]
  have clock: "date_now clock_stepped_back = (\<lambda>k. if k = 7 then 1100 else 1000 + 250 * int k)"
    by (simp add: clock_stepped_back_def)
  show ?thesis
    by (simp add: run clock sample_audio_base64 sample_reply_def del: base64.simps)
qed

text \<open>
  C5, amended. On a successful request, when the successive readings of \<^verbatim>\<open>Date.now()\<close>
  do not decrease, the total request time the handler logs is at least the sum of the
  three stage durations it logs.
\<close>

theorem logged_total_covers_stages:
  assumes "request_file rq = Some data"
    and "fetch_stt w (transcribe_request w (toBuffer data) (filename_or_default data)) = Response st1 tv1 (Read d1)"
    and "ok st1"
    and "\<not> whitespace_only (stt_text d1)"
    and "fetch_llm w (generate_request w (stt_text d1)) = Response st2 tv2 (Read d2)"
    and "ok st2"
    and "fetch_tts w (synthesize_request w (response d2)) = Response st3 tv3 (Read audio)"
    and "ok st3"
    and clock: "\<forall>k<7. date_now w k \<le> date_now w (Suc k)"
  shows "total_times (events (snd (chat_handler w rq fresh))) = [date_now w 7 - date_now w 0]
       \<and> sum_list (map snd (stage_durations (events (snd (chat_handler w rq fresh)))))
            \<le> date_now w 7 - date_now w 0"
proof -
  from assms(4) have speech: "trim (stt_text d1) \<noteq> []" by (simp add: trim_empty_iff)
  note run = chat_handler_success [OF assms(1-3) speech assms(5-8)]
  have step: "date_now w k \<le> date_now w (Suc k)" if "k < 7" for k
    using clock that by blast
  have "date_now w 0 \<le> date_now w 1" using step [of 0] by simp
  moreover have "date_now w 2 \<le> date_now w 3" using step [of 2] by simp
  moreover have "date_now w 4 \<le> date_now w 5" using step [of 4] by simp
  moreover have "date_now w 6 \<le> date_now w 7" using step [of 6] by simp
  ultimately have "(date_now w 2 - date_now w 1) + (date_now w 4 - date_now w 3)
      + (date_now w 6 - date_now w 5) \<le> date_now w 7 - date_now w 0"
    by simp
  then show ?thesis by (simp add: run)
qed

text \<open>The clock of the sample world advances by 250 ms at every reading.\<close>

theorem logged_total_covers_stages_witness:
  "request_file sample_request = Some sample_file
   \<and> list_all (\<lambda>k. date_now sample_world k \<le> date_now sample_world (Suc k)) [0..<7]
   \<and> total_times (events (snd (chat_handler sample_world sample_request fresh))) = [1750]
   \<and> sum_list (map snd (stage_durations (events (snd (chat_handler sample_world sample_request fresh)))))
        \<le> 1750"
proof -
  have upload: "request_file sample_request = Some sample_file"
    by (simp add: sample_defs)
  have stt: "fetch_stt sample_world
      (transcribe_request sample_world (toBuffer sample_file) (filename_or_default sample_file)) =
      Response 200 (Read []) (Read \<lparr>stt_text = js ''hello there''\<rparr>)"
    by (simp add: sample_world_def)
  have llm: "fetch_llm sample_world (generate_request sample_world (stt_text \<lparr>stt_text = js ''hello there''\<rparr>)) =
      Response 200 (Read []) (Read \<lparr>response = js ''Hi! How can I help?'', ollama_done = True\<rparr>)"
    by (simp add: sample_world_def)
  have tts: "fetch_tts sample_world (synthesize_request sample_world
        (response \<lparr>response = js ''Hi! How can I help?'', ollama_done = True\<rparr>)) =
      Response 200 (Read []) (Read [0x52, 0x49, 0x46, 0x46])"
    by (simp add: sample_world_def)
  have ok200: "ok 200" by (simp add: ok_def)
  have speech: "\<not> whitespace_only (stt_text \<lparr>stt_text = js ''hello there''\<rparr>)"
    using sample_transcript_not_blank by simp
  have clock: "\<forall>k<7. date_now sample_world k \<le> date_now sample_world (Suc k)"
    by (simp add: sample_world_def)
  have clock': "list_all (\<lambda>k. date_now sample_world k \<le> date_now sample_world (Suc k)) [0..<7]"
    by (simp add: sample_world_def list_all_iff)
  from logged_total_covers_stages [OF upload stt ok200 speech llm ok200 tts ok200 clock] upload clock'
  show ?thesis by (simp add: sample_world_def)
qed

subsection \<open>C6: a request without a file is rejected first\<close>

text \<open>
  C6. When the request carries no file, the handler fails with the error
  \<open>No audio file provided\<close> and status code 400, and no collaborator has been called.
\<close>

theorem missing_input_rejected:
  assumes "request_file rq = None"
  shows "fst (chat_handler w rq fresh) = Inl (js ''No audio file provided'')
       \<and> reply_code (snd (chat_handler w rq fresh)) = Some 400
       \<and> fetches (events (snd (chat_handler w rq fresh))) = []"
  by (simp add: chat_handler_missing [OF assms])

text \<open>The request without a file, in the sample world.\<close>

theorem missing_input_rejected_witness:
  "request_file \<lparr>request_file = None\<rparr> = None
   \<and> fst (chat_handler sample_world \<lparr>request_file = None\<rparr> fresh) = Inl (js ''No audio file provided'')
   \<and> reply_code (snd (chat_handler sample_world \<lparr>request_file = None\<rparr> fresh)) = Some 400
   \<and> fetches (events (snd (chat_handler sample_world \<lparr>request_file = None\<rparr> fresh))) = []"
proof -
  have none: "request_file \<lparr>request_file = None\<rparr> = None" by simp
  from missing_input_rejected [OF none, of sample_world] show ?thesis by simp
qed

subsection \<open>C7: what the caller sees of a failing stage\<close>

text \<open>
  C7 as stated fails for transport failures. In the first world the STT collaborator
  cannot be reached, in the second the LLM collaborator: the two runs fail in different
  stages, and the error the caller gets is the same \<open>fetch failed\<close> in both, which names
  no stage.
\<close>

theorem transport_failure_names_no_stage:
  "fst (chat_handler stt_unreachable sample_request fresh) = Inl (js ''fetch failed'')
   \<and> called (events (snd (chat_handler stt_unreachable sample_request fresh))) = [STT]
   \<and> fst (chat_handler llm_unreachable sample_request fresh) = Inl (js ''fetch failed'')
   \<and> called (events (snd (chat_handler llm_unreachable sample_request fresh))) = [STT, LLM]"
  by (simp add: stt_unreachable_def llm_unreachable_def sample_defs run_defs called_def
      transcribeAudio_def generateLLMResponse_def trim_def is_white_space_def js_def)

text \<open>
  C7, amended. Let a run have made a call to a collaborator. If the collaborator answered
  with a status that is not ok and an error text, the handler fails with the name of the
  stage, \<open> service error: \<close> and that text. If the call was rejected, the handler fails
  with the message of the rejection, unchanged and without the name of the stage. In both
  cases, and when the body could not be read, the handler sets no status code.
\<close>

theorem failing_fetch_error:
  assumes "c \<in> set (fetches (events (snd (chat_handler w rq fresh))))"
  shows "(\<forall>t. answer_failure w c = Some (UpstreamFailure t) \<longrightarrow>
            fst (chat_handler w rq fresh) = Inl (js (stage_name (fst c)) @ js '' service error: '' @ t))
       \<and> (\<forall>e. answer_failure w c = Some (TransportFailure e) \<longrightarrow>
            fst (chat_handler w rq fresh) = Inl e)
       \<and> (answer_failure w c \<noteq> None \<longrightarrow> reply_code (snd (chat_handler w rq fresh)) = None)"
proof (cases rule: chat_handler_cases [where rq = rq and w = w])
  case missing
  with assms show ?thesis by (simp add: chat_handler_missing)
next
  case (stt_fails data fl)
  note run = chat_handler_stt_fails [OF stt_fails]
  from assms have "c = (STT, transcribe_request w (toBuffer data) (filename_or_default data))"
    by (simp add: run)
  with stt_fails show ?thesis by (simp add: run)
next
  case (no_speech data st1 tv1 d1)
  note run = chat_handler_no_speech [OF no_speech]
  from assms have "c = (STT, transcribe_request w (toBuffer data) (filename_or_default data))"
    by (simp add: run)
  with no_speech show ?thesis by (simp add: run)
next
  case (llm_fails data st1 tv1 d1 fl)
  note run = chat_handler_llm_fails [OF llm_fails]
  from assms have "c = (STT, transcribe_request w (toBuffer data) (filename_or_default data))
      \<or> c = (LLM, generate_request w (stt_text d1))"
    by (simp add: run)
  with llm_fails show ?thesis by (auto simp: run)
next
  case (tts_fails data st1 tv1 d1 st2 tv2 d2 fl)
  note run = chat_handler_tts_fails [OF tts_fails]
  from assms have "c = (STT, transcribe_request w (toBuffer data) (filename_or_default data))
      \<or> c = (LLM, generate_request w (stt_text d1))
      \<or> c = (TTS, synthesize_request w (response d2))"
    by (simp add: run)
  with tts_fails show ?thesis by (auto simp: run)
next
  case (success data st1 tv1 d1 st2 tv2 d2 st3 tv3 audio)
  note run = chat_handler_success [OF success]
  from assms have "c = (STT, transcribe_request w (toBuffer data) (filename_or_default data))
      \<or> c = (LLM, generate_request w (stt_text d1))
      \<or> c = (TTS, synthesize_request w (response d2))"
    by (simp add: run)
  with success show ?thesis by (auto simp: run)
qed

text \<open>An upstream failure and a transport failure of the LLM stage.\<close>

theorem failing_fetch_error_witness:
  "(LLM, generate_request llm_broken (js ''hello there''))
      \<in> set (fetches (events (snd (chat_handler llm_broken sample_request fresh))))
   \<and> answer_failure llm_broken (LLM, generate_request llm_broken (js ''hello there'')) =
        Some (UpstreamFailure (js ''model not found''))
   \<and> fst (chat_handler llm_broken sample_request fresh) = Inl (js ''LLM service error: model not found'')
   \<and> (LLM, generate_request llm_unreachable (js ''hello there''))
      \<in> set (fetches (events (snd (chat_handler llm_unreachable sample_request fresh))))
   \<and> answer_failure llm_unreachable (LLM, generate_request llm_unreachable (js ''hello there'')) =
        Some (TransportFailure (js ''fetch failed''))
   \<and> fst (chat_handler llm_unreachable sample_request fresh) = Inl (js ''fetch failed'')"
proof -
  have in1: "(LLM, generate_request llm_broken (js ''hello there''))
      \<in> set (fetches (events (snd (chat_handler llm_broken sample_request fresh))))"
    by (simp add: llm_broken_def sample_world_def sample_request_def sample_file_def ok_def run_defs
        transcribeAudio_def generateLLMResponse_def trim_def is_white_space_def js_def)
  have a1: "answer_failure llm_broken (LLM, generate_request llm_broken (js ''hello there'')) =
        Some (UpstreamFailure (js ''model not found''))"
    by (simp add: llm_broken_def ok_def)
  have in2: "(LLM, generate_request llm_unreachable (js ''hello there''))
      \<in> set (fetches (events (snd (chat_handler llm_unreachable sample_request fresh))))"
    by (simp add: llm_unreachable_def sample_world_def sample_request_def sample_file_def ok_def run_defs
        transcribeAudio_def generateLLMResponse_def trim_def is_white_space_def js_def)
  have a2: "answer_failure llm_unreachable (LLM, generate_request llm_unreachable (js ''hello there'')) =
        Some (TransportFailure (js ''fetch failed''))"
    by (simp add: llm_unreachable_def)
  from failing_fetch_error [OF in1] a1
  have r1: "fst (chat_handler llm_broken sample_request fresh) = Inl (js ''LLM service error: model not found'')"
    by (simp add: js_def)
  from failing_fetch_error [OF in2] a2
  have r2: "fst (chat_handler llm_unreachable sample_request fresh) = Inl (js ''fetch failed'')"
    by simp
  from in1 a1 r1 in2 a2 r2 show ?thesis by blast
qed

subsection \<open>C8: the request sent to the LLM collaborator\<close>

text \<open>
  C8. For every transcript, \<open>generateLLMResponse\<close> makes exactly one call: a POST with
  content type \<open>application/json\<close> to \<open>/api/generate\<close> of the LLM service, whose URL is
  the environment variable \<open>LLM_SERVICE_URL\<close>, or \<open>http://localhost:11434\<close> when that is
  unset or empty. Its body is the JSON object with, in this order, \<open>model\<close> the configured
  model identifier, that is the environment variable \<open>LLM_MODEL\<close>, or \<open>gemma3:4b\<close> when
  that is unset or empty; \<open>prompt\<close> the transcript; \<open>system\<close> the fixed system prompt; and
  \<open>stream\<close> false. Every request the handler sends to the LLM collaborator is such a
  request, made for the transcript the STT collaborator returned, so that \<open>stream\<close> is
  never true.
\<close>

theorem llm_request_body:
  "events (snd (generateLLMResponse w userMessage s)) = events s @ [Fetch LLM (generate_request w userMessage)]
   \<and> url (generate_request w userMessage) =
        (case process_env w ''LLM_SERVICE_URL'' of
           None \<Rightarrow> js ''http://localhost:11434''
         | Some v \<Rightarrow> if v = [] then js ''http://localhost:11434'' else v) @ js ''/api/generate''
   \<and> http_method (generate_request w userMessage) = ''POST''
   \<and> headers (generate_request w userMessage) = [(''Content-Type'', ''application/json'')]
   \<and> body (generate_request w userMessage) =
        JsonBody (JObject
          [(''model'', JString (case process_env w ''LLM_MODEL'' of
                                  None \<Rightarrow> js ''gemma3:4b''
                                | Some v \<Rightarrow> if v = [] then js ''gemma3:4b'' else v)),
           (''prompt'', JString userMessage),
           (''system'', JString (js (''You are a friendly and helpful voice assistant. Keep your responses concise and conversational, as they will be spoken aloud. '' @
              ''Aim for 1-3 sentences unless the user asks for more detail. Avoid using markdown, bullet points, or special formatting since your response will be converted to speech. '' @
              ''Be natural and engaging.''))),
           (''stream'', JBool False)])
   \<and> (\<forall>rq c. c \<in> set (fetches (events (snd (chat_handler w rq fresh)))) \<and> fst c = LLM \<longrightarrow>
          (\<exists>data st tv d.
             request_file rq = Some data
           \<and> fetch_stt w (transcribe_request w (toBuffer data) (filename_or_default data)) =
               Response st tv (Read d)
           \<and> ok st
           \<and> snd c = generate_request w (stt_text d)))"
proof -
  have "events (snd (generateLLMResponse w userMessage s)) = events s @ [Fetch LLM (generate_request w userMessage)]"
    by (simp add: generateLLMResponse_def Let_def emit_def events_def split: fetched.split body_read.split)
  moreover have "url (generate_request w userMessage) =
        (case process_env w ''LLM_SERVICE_URL'' of
           None \<Rightarrow> js ''http://localhost:11434''
         | Some v \<Rightarrow> if v = [] then js ''http://localhost:11434'' else v) @ js ''/api/generate''"
    by (simp add: generate_request_def LLM_SERVICE_URL_def env_or_def)
  moreover have "http_method (generate_request w userMessage) = ''POST''"
    and "headers (generate_request w userMessage) = [(''Content-Type'', ''application/json'')]"
    by (simp_all add: generate_request_def)
  moreover have "body (generate_request w userMessage) =
        JsonBody (JObject
          [(''model'', JString (case process_env w ''LLM_MODEL'' of
                                  None \<Rightarrow> js ''gemma3:4b''
                                | Some v \<Rightarrow> if v = [] then js ''gemma3:4b'' else v)),
           (''prompt'', JString userMessage),
           (''system'', JString (js (''You are a friendly and helpful voice assistant. Keep your responses concise and conversational, as they will be spoken aloud. '' @
              ''Aim for 1-3 sentences unless the user asks for more detail. Avoid using markdown, bullet points, or special formatting since your response will be converted to speech. '' @
              ''Be natural and engaging.''))),
           (''stream'', JBool False)])"
    by (simp only: generate_request_def LLM_MODEL_def env_or_def SYSTEM_PROMPT_def http_request.simps)
  ultimately show ?thesis using llm_fetches_of_run by blast
qed

text \<open>
  A world where \<open>LLM_MODEL\<close> is \<open>llama3.2:1b\<close> and \<open>LLM_SERVICE_URL\<close> is
  \<open>http://ollama:11434\<close>: the request of the run carries that model and goes to that
  service. In the sample world, where neither is set, the model is \<open>gemma3:4b\<close>.
\<close>

theorem llm_request_body_witness:
  "(LLM, generate_request configured_world (js ''hello there''))
      \<in> set (fetches (events (snd (chat_handler configured_world sample_request fresh))))
   \<and> url (generate_request configured_world (js ''hello there'')) = js ''http://ollama:11434/api/generate''
   \<and> body (generate_request configured_world (js ''hello there'')) =
        JsonBody (JObject [(''model'', JString (js ''llama3.2:1b'')),
                           (''prompt'', JString (js ''hello there'')),
                           (''system'', JString SYSTEM_PROMPT),
                           (''stream'', JBool False)])
   \<and> body (generate_request sample_world (js ''hello there'')) =
        JsonBody (JObject [(''model'', JString (js ''gemma3:4b'')),
                           (''prompt'', JString (js ''hello there'')),
                           (''system'', JString SYSTEM_PROMPT),
                           (''stream'', JBool False)])
   \<and> (\<exists>data st tv d.
         request_file sample_request = Some data
       \<and> fetch_stt configured_world
            (transcribe_request configured_world (toBuffer data) (filename_or_default data)) =
           Response st tv (Read d)
       \<and> ok st
       \<and> generate_request configured_world (js ''hello there'') =
           generate_request configured_world (stt_text d))"
proof -
  have upload: "request_file sample_request = Some sample_file"
    by (simp add: sample_request_def)
  have stt: "fetch_stt configured_world
      (transcribe_request configured_world (toBuffer sample_file) (filename_or_default sample_file)) =
      Response 200 (Read []) (Read \<lparr>stt_text = js ''hello there''\<rparr>)"
    by (simp add: configured_world_def sample_world_def)
  have llm: "fetch_llm configured_world
      (generate_request configured_world (stt_text \<lparr>stt_text = js ''hello there''\<rparr>)) =
      Response 200 (Read []) (Read \<lparr>response = js ''Hi! How can I help?'', ollama_done = True\<rparr>)"
    by (simp add: configured_world_def sample_world_def)
  have tts: "fetch_tts configured_world (synthesize_request configured_world
        (response \<lparr>response = js ''Hi! How can I help?'', ollama_done = True\<rparr>)) =
      Response 200 (Read []) (Read [0x52, 0x49, 0x46, 0x46])"
    by (simp add: configured_world_def sample_world_def)
  have ok200: "ok 200" by (simp add: ok_def)
  have speech: "trim (stt_text \<lparr>stt_text = js ''hello there''\<rparr>) \<noteq> []"
    using sample_transcript_trimmed by simp
  note run = chat_handler_success [OF upload stt ok200 speech llm ok200 tts ok200]
  have made: "(LLM, generate_request configured_world (js ''hello there''))
      \<in> set (fetches (events (snd (chat_handler configured_world sample_request fresh))))"
    by (simp add: run)
  have env: "process_env configured_world ''LLM_MODEL'' = Some (js ''llama3.2:1b'')"
    "process_env configured_world ''LLM_SERVICE_URL'' = Some (js ''http://ollama:11434'')"
    "process_env sample_world ''LLM_MODEL'' = None"
    by (simp_all add: configured_world_def sample_world_def)
  have nonempty: "js ''llama3.2:1b'' \<noteq> []" "js ''http://ollama:11434'' \<noteq> []"
    by (simp_all add: js_def)
  have joined: "js ''http://ollama:11434'' @ js ''/api/generate'' = js ''http://ollama:11434/api/generate''"
    by (simp add: js_def)
  note configured = llm_request_body [of configured_world "js ''hello there''" fresh]
  note default = llm_request_body [of sample_world "js ''hello there''" fresh]
  from configured [THEN conjunct2, THEN conjunct1]
  have 1: "url (generate_request configured_world (js ''hello there'')) =
      js ''http://ollama:11434/api/generate''"
    by (simp only: env nonempty joined option.case if_False)
  from configured [THEN conjunct2, THEN conjunct2, THEN conjunct2, THEN conjunct2, THEN conjunct1]
  have 2: "body (generate_request configured_world (js ''hello there'')) =
        JsonBody (JObject [(''model'', JString (js ''llama3.2:1b'')),
                           (''prompt'', JString (js ''hello there'')),
                           (''system'', JString SYSTEM_PROMPT),
                           (''stream'', JBool False)])"
    by (simp only: env nonempty option.case if_False SYSTEM_PROMPT_def)
  from default [THEN conjunct2, THEN conjunct2, THEN conjunct2, THEN conjunct2, THEN conjunct1]
  have 3: "body (generate_request sample_world (js ''hello there'')) =
        JsonBody (JObject [(''model'', JString (js ''gemma3:4b'')),
                           (''prompt'', JString (js ''hello there'')),
                           (''system'', JString SYSTEM_PROMPT),
                           (''stream'', JBool False)])"
    by (simp only: env option.case SYSTEM_PROMPT_def)
  have "fst (LLM, generate_request configured_world (js ''hello there'')) = LLM" by simp
  with made configured [THEN conjunct2, THEN conjunct2, THEN conjunct2, THEN conjunct2, THEN conjunct2,
      rule_format, of "(LLM, generate_request configured_world (js ''hello there''))" sample_request]
  have 4: "\<exists>data st tv d.
         request_file sample_request = Some data
       \<and> fetch_stt configured_world
            (transcribe_request configured_world (toBuffer data) (filename_or_default data)) =
           Response st tv (Read d)
       \<and> ok st
       \<and> generate_request configured_world (js ''hello there'') =
           generate_request configured_world (stt_text d)"
    by (simp only: snd_conv)
  from made 1 2 3 4 show ?thesis by (intro conjI)
qed

subsection \<open>C9: an upload without a file name\<close>

text \<open>
  C9. When the uploaded file has no file name, or an empty one, the one request the
  handler sends to the STT collaborator carries the file name \<open>audio.webm\<close>. The file
  name matters nowhere else: any other upload to which the STT collaborator gives the
  same answer leads to the same result, the same status code and the same requests to
  the LLM and TTS collaborators.
\<close>

theorem missing_filename_defaults:
  assumes "request_file rq = Some data"
    and "filename data = None \<or> filename data = Some []"
  shows "filter (\<lambda>c. fst c = STT) (fetches (events (snd (chat_handler w rq fresh)))) =
           [(STT, transcribe_request w (toBuffer data) (js ''audio.webm''))]
       \<and> body (transcribe_request w (toBuffer data) (js ''audio.webm'')) =
           FormData [(''audio'', toBuffer data, js ''audio.webm'')]
       \<and> (\<forall>rq' data'.
            request_file rq' = Some data' \<and>
            fetch_stt w (transcribe_request w (toBuffer data') (filename_or_default data')) =
              fetch_stt w (transcribe_request w (toBuffer data) (js ''audio.webm'')) \<longrightarrow>
            fst (chat_handler w rq' fresh) = fst (chat_handler w rq fresh)
          \<and> reply_code (snd (chat_handler w rq' fresh)) = reply_code (snd (chat_handler w rq fresh))
          \<and> filter (\<lambda>c. fst c \<noteq> STT) (fetches (events (snd (chat_handler w rq' fresh)))) =
              filter (\<lambda>c. fst c \<noteq> STT) (fetches (events (snd (chat_handler w rq fresh)))))"
proof -
  from assms(2) have name: "filename_or_default data = js ''audio.webm''"
    by (auto simp: filename_or_default_def)
  have "filter (\<lambda>c. fst c = STT) (fetches (events (snd (chat_handler w rq fresh)))) =
           [(STT, transcribe_request w (toBuffer data) (js ''audio.webm''))]"
    using stt_fetch_of_run [OF assms(1), of w] by (simp add: name)
  moreover have "body (transcribe_request w (toBuffer data) (js ''audio.webm'')) =
           FormData [(''audio'', toBuffer data, js ''audio.webm'')]"
    by (simp add: transcribe_request_def)
  moreover have "fst (chat_handler w rq' fresh) = fst (chat_handler w rq fresh)
          \<and> reply_code (snd (chat_handler w rq' fresh)) = reply_code (snd (chat_handler w rq fresh))
          \<and> filter (\<lambda>c. fst c \<noteq> STT) (fetches (events (snd (chat_handler w rq' fresh)))) =
              filter (\<lambda>c. fst c \<noteq> STT) (fetches (events (snd (chat_handler w rq fresh))))"
    if "request_file rq' = Some data'"
      and "fetch_stt w (transcribe_request w (toBuffer data') (filename_or_default data')) =
              fetch_stt w (transcribe_request w (toBuffer data) (js ''audio.webm''))"
    for rq' data'
    using rest_depends_on_stt_answer [OF assms(1) that(1)] that(2) by (simp add: name)
  ultimately show ?thesis by blast
qed

text \<open>An upload without a name, compared with the sample upload \<open>clip.webm\<close>.\<close>

theorem missing_filename_defaults_witness:
  "request_file \<lparr>request_file = Some unnamed_file\<rparr> = Some unnamed_file
   \<and> filename unnamed_file = None
   \<and> filter (\<lambda>c. fst c = STT)
        (fetches (events (snd (chat_handler sample_world \<lparr>request_file = Some unnamed_file\<rparr> fresh)))) =
        [(STT, transcribe_request sample_world [1, 2, 3] (js ''audio.webm''))]
   \<and> body (transcribe_request sample_world [1, 2, 3] (js ''audio.webm'')) =
        FormData [(''audio'', [1, 2, 3], js ''audio.webm'')]
   \<and> fst (chat_handler sample_world sample_request fresh) =
        fst (chat_handler sample_world \<lparr>request_file = Some unnamed_file\<rparr> fresh)"
proof -
  have upload: "request_file \<lparr>request_file = Some unnamed_file\<rparr> = Some unnamed_file" by simp
  have unnamed: "filename unnamed_file = None \<or> filename unnamed_file = Some []"
    by (simp add: unnamed_file_def)
  have other: "request_file sample_request = Some sample_file"
    by (simp add: sample_request_def)
  have same: "fetch_stt sample_world
        (transcribe_request sample_world (toBuffer sample_file) (filename_or_default sample_file)) =
      fetch_stt sample_world
        (transcribe_request sample_world (toBuffer unnamed_file) (js ''audio.webm''))"
    by (simp add: sample_world_def)
  from missing_filename_defaults [OF upload unnamed, of sample_world] other same
  have "filter (\<lambda>c. fst c = STT)
        (fetches (events (snd (chat_handler sample_world \<lparr>request_file = Some unnamed_file\<rparr> fresh)))) =
        [(STT, transcribe_request sample_world (toBuffer unnamed_file) (js ''audio.webm''))]"
    and "body (transcribe_request sample_world (toBuffer unnamed_file) (js ''audio.webm'')) =
        FormData [(''audio'', toBuffer unnamed_file, js ''audio.webm'')]"
    and "fst (chat_handler sample_world sample_request fresh) =
        fst (chat_handler sample_world \<lparr>request_file = Some unnamed_file\<rparr> fresh)"
    by blast+
  then show ?thesis by (simp add: unnamed_file_def)
qed

subsection \<open>C10: an upload of zero bytes\<close>

text \<open>
  C10. The handler rejects a request for its missing file, not for its content: when
  the request has a file of zero bytes, the run differs from that of a request without a
  file, and it begins by logging the file with length 0 and sending the empty blob to the
  STT collaborator.
\<close>

theorem empty_audio_is_forwarded:
  assumes "request_file rq = Some data" and "toBuffer data = []"
  shows "chat_handler w rq fresh \<noteq> chat_handler w \<lparr>request_file = None\<rparr> fresh
       \<and> take 3 (events (snd (chat_handler w rq fresh))) =
          [LogInfo (ReceivedAudioFile (filename_or_default data) 0),
           LogInfo TranscribingAudio,
           Fetch STT (transcribe_request w [] (filename_or_default data))]
       \<and> body (transcribe_request w [] (filename_or_default data)) =
          FormData [(''audio'', [], filename_or_default data)]"
proof -
  note first = first_events_of_run [OF assms(1), of w]
  have "events (snd (chat_handler w \<lparr>request_file = None\<rparr> fresh)) = []"
    by (simp add: chat_handler_missing)
  with first have "chat_handler w rq fresh \<noteq> chat_handler w \<lparr>request_file = None\<rparr> fresh"
    by auto
  with first assms(2) show ?thesis by (simp add: transcribe_request_def)
qed

text \<open>An upload of zero bytes in the sample world.\<close>

theorem empty_audio_is_forwarded_witness:
  "request_file \<lparr>request_file = Some empty_file\<rparr> = Some empty_file
   \<and> toBuffer empty_file = []
   \<and> chat_handler sample_world \<lparr>request_file = Some empty_file\<rparr> fresh
       \<noteq> chat_handler sample_world \<lparr>request_file = None\<rparr> fresh
   \<and> take 3 (events (snd (chat_handler sample_world \<lparr>request_file = Some empty_file\<rparr> fresh))) =
          [LogInfo (ReceivedAudioFile (js ''clip.webm'') 0),
           LogInfo TranscribingAudio,
           Fetch STT (transcribe_request sample_world [] (js ''clip.webm''))]"
proof -
  have upload: "request_file \<lparr>request_file = Some empty_file\<rparr> = Some empty_file" by simp
  have empty: "toBuffer empty_file = []" by (simp add: empty_file_def)
  have name: "filename_or_default empty_file = js ''clip.webm''"
    by (simp add: filename_or_default_def empty_file_def js_def)
  from empty_audio_is_forwarded [OF upload empty, of sample_world] upload empty
  show ?thesis by (simp add: name)
qed

end
